(* ===== verification/Prelude.thy ===== *)
theory Prelude
  imports Complex_Main "HOL-Library.Sublist"
begin

text \<open>
  Shared vocabulary of the development: the Python string, list and
  \<open>OrderedDict\<close> operations that both scripts under \<open>src/\<close> call, modelled on
  their documented Python semantics, with the generic lemmas the component
  theories use.  Strings are \<open>char list\<close>s; Python's \<open>str\<close> is Unicode, the model
  works on the ASCII text that HDF-EOS structural metadata consists of.
\<close>

named_theorems py_simps \<open>evaluation rules of the Python helpers\<close>

section \<open>Strings\<close>

text \<open>\<open>s.split(c)\<close> for a one-character separator: always at least one piece.\<close>

fun py_split :: "char \<Rightarrow> string \<Rightarrow> string list" where
  "py_split c [] = [[]]"
| "py_split c (x # xs) =
     (let r = py_split c xs in if x = c then [] # r else (x # hd r) # tl r)"

text \<open>\<open>c.join(xs)\<close> for a one-character separator.\<close>

fun py_join :: "char \<Rightarrow> string list \<Rightarrow> string" where
  "py_join c [] = []"
| "py_join c [x] = x"
| "py_join c (x # y # ys) = x @ c # py_join c (y # ys)"

text \<open>\<open>p in s\<close> for strings: substring test.\<close>

fun py_in :: "string \<Rightarrow> string \<Rightarrow> bool" where
  "py_in p [] \<longleftrightarrow> p = []"
| "py_in p (x # xs) \<longleftrightarrow> take (length p) (x # xs) = p \<or> py_in p xs"

text \<open>\<open>s.lower()\<close> on ASCII letters.\<close>

definition py_lower_char :: "char \<Rightarrow> char" where
  "py_lower_char c =
     (if (65::nat) \<le> of_char c \<and> of_char c \<le> (90::nat) then char_of (of_char c + (32::nat)) else c)"

definition py_lower :: "string \<Rightarrow> string" where
  "py_lower s = map py_lower_char s"

text \<open>\<open>s.replace(c, '')\<close> for one character.\<close>

abbreviation py_remove :: "char \<Rightarrow> string \<Rightarrow> string" where
  "py_remove c s \<equiv> removeAll c s"

section \<open>Lists\<close>

text \<open>\<open>xs.index(x)\<close>: the first position of \<open>x\<close>, \<open>None\<close> where Python raises \<open>ValueError\<close>.\<close>

fun py_index :: "'a list \<Rightarrow> 'a \<Rightarrow> nat option" where
  "py_index [] x = None"
| "py_index (y # ys) x = (if y = x then Some 0 else map_option Suc (py_index ys x))"

text \<open>\<open>xs[i:j]\<close> for non-negative bounds: empty when \<open>j \<le> i\<close>.\<close>

definition py_slice :: "'a list \<Rightarrow> nat \<Rightarrow> nat \<Rightarrow> 'a list" where
  "py_slice xs i j = take (j - i) (drop i xs)"

section \<open>OrderedDict\<close>

text \<open>
  An \<open>OrderedDict\<close> is an association list with distinct keys in insertion order.
  \<open>d[k] = v\<close> replaces the value in place when \<open>k\<close> is present (the key keeps its
  position) and appends the pair otherwise.
\<close>

type_synonym ('k, 'v) odict = "('k \<times> 'v) list"

fun od_set :: "('k, 'v) odict \<Rightarrow> 'k \<Rightarrow> 'v \<Rightarrow> ('k, 'v) odict" where
  "od_set [] k v = [(k, v)]"
| "od_set ((k', v') # d) k v = (if k' = k then (k, v) # d else (k', v') # od_set d k v)"

definition od_get :: "('k, 'v) odict \<Rightarrow> 'k \<Rightarrow> 'v option" where
  "od_get d k = map_of d k"

section \<open>Exceptions\<close>

text \<open>
  Code that may raise returns \<open>Inl\<close> of its exception or \<open>Inr\<close> of its result;
  \<open>sbind\<close> runs the next statement only when the previous one did not raise.
\<close>

definition sbind :: "'e + 'a \<Rightarrow> ('a \<Rightarrow> 'e + 'b) \<Rightarrow> 'e + 'b" where
  "sbind r f = (case r of Inl e \<Rightarrow> Inl e | Inr a \<Rightarrow> f a)"

subsection \<open>Lemmas on the string helpers\<close>

lemma py_split_not_Nil [simp]: "py_split c s \<noteq> []"
  by (induction s) (auto simp: Let_def)

lemma py_split_Cons_sep [py_simps]: "py_split c (c # xs) = [] # py_split c xs"
  by simp

lemma py_split_Cons_other [py_simps]:
  "x \<noteq> c \<Longrightarrow> py_split c (x # xs) = (x # hd (py_split c xs)) # tl (py_split c xs)"
  by (simp add: Let_def)

lemma py_split_no_sep [simp]: "c \<notin> set s \<Longrightarrow> py_split c s = [s]"
  by (induction s) (auto simp: Let_def)

lemma py_split_sep_in: "length (py_split c s) \<noteq> 1 \<Longrightarrow> c \<in> set s"
  using py_split_no_sep by fastforce

lemma py_split_append_sep:
  "c \<notin> set x \<Longrightarrow> py_split c (x @ c # s) = x # py_split c s"
  by (induction x) (auto simp: Let_def)

lemma py_split_pair:
  "c \<notin> set k \<Longrightarrow> c \<notin> set v \<Longrightarrow> py_split c (k @ c # v) = [k, v]"
  by (simp add: py_split_append_sep)

lemma py_join_Cons_Cons [simp]: "py_join c (x # y # ys) = x @ c # py_join c (y # ys)"
  by simp

lemma py_split_join:
  "xs \<noteq> [] \<Longrightarrow> \<forall>x \<in> set xs. c \<notin> set x \<Longrightarrow> py_split c (py_join c xs) = xs"
proof (induction xs rule: py_join.induct)
  case (3 c x y ys)
  then show ?case by (simp add: py_split_append_sep)
qed auto

lemma py_split_pieces: "p \<in> set (py_split c s) \<Longrightarrow> c \<notin> set p"
proof (induction s arbitrary: p)
  case (Cons x xs)
  obtain w ws where r: "py_split c xs = w # ws"
    by (cases "py_split c xs") auto
  with Cons show ?case
    by (auto simp: Let_def split: if_splits)
qed simp

lemma py_split_removeAll:
  "d \<noteq> c \<Longrightarrow> py_split c (removeAll d s) = map (removeAll d) (py_split c s)"
proof (induction s)
  case (Cons x xs)
  obtain w ws where r: "py_split c xs = w # ws"
    by (cases "py_split c xs") auto
  with Cons show ?case
    by (auto simp: Let_def)
qed simp

lemma py_in_iff_sublist: "py_in p s \<longleftrightarrow> sublist p s"
proof (induction s)
  case Nil
  then show ?case by simp
next
  case (Cons x xs)
  have "take (length p) (x # xs) = p \<longleftrightarrow> prefix p (x # xs)"
    by (metis prefix_def append_take_drop_id take_all_iff prefix_length_le
        append_eq_conv_conj)
  with Cons show ?case
    by (simp add: sublist_Cons_right)
qed

lemma py_in_append [intro]: "py_in p (u @ p @ v)"
  by (simp add: py_in_iff_sublist)

subsection \<open>Lemmas on lists and ordered dictionaries\<close>

lemma py_index_Some_nth:
  "py_index xs x = Some i \<Longrightarrow> i < length xs \<and> xs ! i = x \<and> (\<forall>j < i. xs ! j \<noteq> x)"
proof (induction xs arbitrary: i)
  case (Cons y ys)
  show ?case
  proof (cases "y = x")
    case True
    with Cons.prems show ?thesis by simp
  next
    case False
    with Cons.prems obtain z where z: "py_index ys x = Some z" and i: "i = Suc z"
      by auto
    from Cons.IH [OF z] False show ?thesis
      by (auto simp: i less_Suc_eq_0_disj)
  qed
qed simp

lemma py_index_None_iff [simp]: "py_index xs x = None \<longleftrightarrow> x \<notin> set xs"
  by (induction xs) auto

lemma py_index_Some_set: "py_index xs x = Some i \<Longrightarrow> x \<in> set xs"
  using py_index_Some_nth nth_mem by metis

lemma py_index_append_notin:
  "x \<notin> set xs \<Longrightarrow>
   py_index (xs @ ys) x = (case py_index ys x of None \<Rightarrow> None | Some i \<Rightarrow> Some (length xs + i))"
  by (induction xs) (auto split: option.splits dest: py_index_Some_set)

lemma py_slice_length: "length (py_slice xs i j) = min (j - i) (length xs - i)"
  by (simp add: py_slice_def)

lemma py_slice_nth:
  "j < length (py_slice xs i k) \<Longrightarrow> i + j < length xs \<and> py_slice xs i k ! j = xs ! (i + j)"
  by (auto simp: py_slice_def nth_drop)

lemma py_slice_take_subset:
  "j < length (py_slice xs i k) \<Longrightarrow> set (take j (py_slice xs i k)) \<subseteq> set (take (i + j) xs)"
  by (simp add: py_slice_def min_def take_add split: if_split_asm)

lemma py_slice_subset: "set (py_slice xs i k) \<subseteq> set xs"
  by (auto simp: py_slice_def dest: in_set_takeD in_set_dropD)

lemma map_of_od_set [simp]: "map_of (od_set d k v) = (map_of d)(k \<mapsto> v)"
  by (induction d) (auto simp: fun_upd_twist)

lemma keys_od_set:
  "map fst (od_set d k v) = (if k \<in> set (map fst d) then map fst d else map fst d @ [k])"
  by (induction d) (force simp: image_iff)+

lemma mean_bounds:
  fixes xs :: "real list"
  assumes "xs \<noteq> []" "\<And>x. x \<in> set xs \<Longrightarrow> a \<le> x \<and> x \<le> b"
  shows "a \<le> sum_list xs / of_nat (length xs) \<and> sum_list xs / of_nat (length xs) \<le> b"
proof -
  have "sum_list (map (\<lambda>_. a) xs) \<le> sum_list (map (\<lambda>x. x) xs)"
    by (rule sum_list_mono) (use assms(2) in auto)
  moreover have "sum_list (map (\<lambda>x. x) xs) \<le> sum_list (map (\<lambda>_. b) xs)"
    by (rule sum_list_mono) (use assms(2) in auto)
  moreover have "sum_list (map (\<lambda>_. c) xs) = of_nat (length xs) * c" for c :: real
    by (induction xs) (simp_all add: algebra_simps)
  moreover have "0 < (of_nat (length xs) :: real)" using assms(1) by simp
  ultimately show ?thesis by (simp add: pos_le_divide_eq pos_divide_le_eq mult.commute)
qed

lemma sbind_Inl [simp]: "sbind (Inl e) f = Inl e"
  by (simp add: sbind_def)

lemma sbind_Inr [simp]: "sbind (Inr a) f = f a"
  by (simp add: sbind_def)

lemma sbind_eq_Inr: "sbind r f = Inr b \<longleftrightarrow> (\<exists>a. r = Inr a \<and> f a = Inr b)"
  by (cases r) simp_all

lemma sbind_eq_Inl: "sbind r f = Inl e \<longleftrightarrow> r = Inl e \<or> (\<exists>a. r = Inr a \<and> f a = Inl e)"
  by (cases r) simp_all

subsection \<open>Monotonicity of case distinctions\<close>

text \<open>
  Loops that may not end are \<open>partial_function (option)\<close>s whose body is a
  separate definition; these rules discharge the body's monotonicity.
\<close>

lemma mono_option_case_list:
  "mono_option A \<Longrightarrow> (\<And>x xs. mono_option (B x xs)) \<Longrightarrow>
   mono_option (\<lambda>f. case ys of [] \<Rightarrow> A f | x # xs \<Rightarrow> B x xs f)"
  by (cases ys) simp_all

lemma mono_option_case_option:
  "mono_option A \<Longrightarrow> (\<And>x. mono_option (B x)) \<Longrightarrow>
   mono_option (\<lambda>f. case y of None \<Rightarrow> A f | Some x \<Rightarrow> B x f)"
  by (cases y) simp_all

lemma mono_option_case_sum:
  "(\<And>x. mono_option (A x)) \<Longrightarrow> (\<And>x. mono_option (B x)) \<Longrightarrow>
   mono_option (\<lambda>f. case y of Inl x \<Rightarrow> A x f | Inr x \<Rightarrow> B x f)"
  by (cases y) simp_all

lemmas mono_option_cases = mono_option_case_list mono_option_case_option mono_option_case_sum

end
