(* ===== verification/PyLiteral.thy ===== *)
theory PyLiteral
  imports Prelude
begin

text \<open>
  The parser of both scripts evaluates every metadata value with Python's
  \<open>eval(value)\<close> (\<open>src/read_and_map_mcd_aerosol.py\<close> line 61,
  \<open>src/read_mcd_aod_and_calculate_pm25.py\<close> line 67) and falls back to the raw
  string on \<open>NameError\<close>.  This theory models \<open>eval\<close> on the expression fragment
  that HDF-EOS metadata values use: decimal integer and float literals, quoted
  strings without escapes, names, unary \<open>+\<close>/\<open>-\<close>, and parenthesised or bare tuples.
  The result of \<open>py_eval\<close> is a value of the fragment, \<open>EvObj\<close> (an object
  outside the fragment, such as the value of a bound name: evaluation goes on
  with the next item of a tuple), a \<open>NameError\<close> (a name that is not bound
  where \<open>eval\<close> runs), or \<open>EvOutside\<close>: text that Python rejects (\<open>SyntaxError\<close>,
  \<open>TypeError\<close>) or evaluates by means outside the fragment (operators, calls),
  which may not even return.  Floats are kept as exact decimals \<open>m \<cdot> 10^e\<close>; binary rounding
  and the float range are not modelled.
\<close>

section \<open>Values\<close>

datatype pyval =
    PInt int
  | PFloat int int  \<comment> \<open>\<open>PFloat m e\<close> is \<open>m \<cdot> 10^e\<close>, trailing zeros of \<open>m\<close> stripped\<close>
  | PStr string
  | PTuple "pyval list"
  | PBool bool
  | PNone

section \<open>Characters\<close>

definition is_digit :: "char \<Rightarrow> bool" where
  "is_digit c \<longleftrightarrow> (48::nat) \<le> of_char c \<and> of_char c \<le> (57::nat)"

definition is_ident_start :: "char \<Rightarrow> bool" where
  "is_ident_start c \<longleftrightarrow>
     ((65::nat) \<le> of_char c \<and> of_char c \<le> (90::nat)) \<or>
     ((97::nat) \<le> of_char c \<and> of_char c \<le> (122::nat)) \<or> c = CHR ''_''"

definition is_ident_char :: "char \<Rightarrow> bool" where
  "is_ident_char c \<longleftrightarrow> is_ident_start c \<or> is_digit c"

definition digit_val :: "char \<Rightarrow> nat" where
  "digit_val c = of_char c - 48"

definition digits_nat :: "string \<Rightarrow> nat" where
  "digits_nat s = foldl (\<lambda>n c. 10 * n + digit_val c) 0 s"

section \<open>Numeric literals\<close>

text \<open>
  A float keeps its digits as an exact decimal: the digit string \<open>ds\<close> with
  decimal exponent \<open>x\<close> is \<open>ds \<cdot> 10^x\<close>, stored with its trailing zeros moved
  into the exponent so that equal literals (\<open>1.50\<close>, \<open>1.5\<close>) give equal values.
\<close>

definition mk_float :: "string \<Rightarrow> int \<Rightarrow> pyval" where
  "mk_float ds x =
     (let tz = length (takeWhile (\<lambda>c. c = CHR ''0'') (rev ds));
          m = digits_nat (take (length ds - tz) ds)
      in if m = 0 then PFloat 0 0 else PFloat (int m) (x + int tz))"

text \<open>The exponent part \<open>[eE][+-]?digits\<close> of a float literal, without the letter.\<close>

definition exp_literal :: "string \<Rightarrow> int option" where
  "exp_literal s =
     (case s of
        [] \<Rightarrow> None
      | c # ds \<Rightarrow>
          (if c = CHR ''-'' \<or> c = CHR ''+'' then
             (if ds \<noteq> [] \<and> list_all is_digit ds
              then Some (if c = CHR ''-'' then - int (digits_nat ds) else int (digits_nat ds))
              else None)
           else if list_all is_digit s then Some (int (digits_nat s)) else None))"

text \<open>
  Python 3 decimal literals: an integer is \<open>0+\<close> or a digit string without a
  leading zero (\<open>0123\<close> is a \<open>SyntaxError\<close>); a float is \<open>digits.digits\<close> with either
  side possibly empty but not both, optionally followed by an exponent, or
  \<open>digits\<close> with an exponent.
\<close>

definition float_literal :: "string \<Rightarrow> pyval option" where
  "float_literal s =
     (let mant = takeWhile (\<lambda>c. c \<noteq> CHR ''e'' \<and> c \<noteq> CHR ''E'') s;
          rest = dropWhile (\<lambda>c. c \<noteq> CHR ''e'' \<and> c \<noteq> CHR ''E'') s;
          ex = (if rest = [] then Some 0 else exp_literal (tl rest));
          ip = takeWhile (\<lambda>c. c \<noteq> CHR ''.'') mant;
          dp = dropWhile (\<lambda>c. c \<noteq> CHR ''.'') mant;
          fp = drop 1 dp
      in case ex of
           None \<Rightarrow> None
         | Some x \<Rightarrow>
             (if dp = [] then
                (if rest \<noteq> [] \<and> ip \<noteq> [] \<and> list_all is_digit ip
                 then Some (mk_float ip x) else None)
              else if list_all is_digit ip \<and> list_all is_digit fp \<and> ip @ fp \<noteq> []
              then Some (mk_float (ip @ fp) (x - int (length fp)))
              else None))"

definition num_literal :: "string \<Rightarrow> pyval option" where
  "num_literal s =
     (if s \<noteq> [] \<and> list_all is_digit s then
        (if hd s = CHR ''0'' \<and> \<not> list_all (\<lambda>c. c = CHR ''0'') s then None
         else Some (PInt (int (digits_nat s))))
      else float_literal s)"

section \<open>Lexer\<close>

datatype token =
    TNum pyval
  | TStr string
  | TName string
  | TSign bool  \<comment> \<open>\<open>True\<close> for \<open>-\<close>, \<open>False\<close> for \<open>+\<close>\<close>
  | TLParen
  | TRParen
  | TComma

datatype lexst = LStart | LNum string | LName string | LStr char string

text \<open>A character seen between tokens.\<close>

definition lex_start :: "char \<Rightarrow> (lexst \<times> token list) option" where
  "lex_start c =
     (if c = CHR '' '' \<or> c = CHR 0x09 then Some (LStart, [])
      else if is_digit c \<or> c = CHR ''.'' then Some (LNum [c], [])
      else if is_ident_start c then Some (LName [c], [])
      else if c = CHR 0x22 \<or> c = CHR 0x27 then Some (LStr c [], [])
      else if c = CHR ''('' then Some (LStart, [TLParen])
      else if c = CHR '')'' then Some (LStart, [TRParen])
      else if c = CHR '','' then Some (LStart, [TComma])
      else if c = CHR ''-'' then Some (LStart, [TSign True])
      else if c = CHR ''+'' then Some (LStart, [TSign False])
      else None)"

text \<open>Characters that continue a numeric token (Python reads \<open>1e-5\<close> as one token).\<close>

definition num_char :: "string \<Rightarrow> char \<Rightarrow> bool" where
  "num_char acc c \<longleftrightarrow>
     is_ident_char c \<or> c = CHR ''.'' \<or>
     ((c = CHR ''-'' \<or> c = CHR ''+'') \<and> acc \<noteq> [] \<and> (last acc = CHR ''e'' \<or> last acc = CHR ''E''))"

definition emit_then :: "token option \<Rightarrow> char \<Rightarrow> (lexst \<times> token list) option" where
  "emit_then t c =
     (case t of
        None \<Rightarrow> None
      | Some tok \<Rightarrow> map_option (\<lambda>(st, ts). (st, tok # ts)) (lex_start c))"

fun lex_step :: "lexst \<Rightarrow> char \<Rightarrow> (lexst \<times> token list) option" where
  "lex_step LStart c = lex_start c"
| "lex_step (LNum acc) c =
     (if num_char acc c then Some (LNum (acc @ [c]), [])
      else emit_then (map_option TNum (num_literal acc)) c)"
| "lex_step (LName acc) c =
     (if is_ident_char c then Some (LName (acc @ [c]), [])
      else emit_then (Some (TName acc)) c)"
| "lex_step (LStr q acc) c =
     (if c = q then Some (LStart, [TStr acc])
      else if c = CHR 0x5C then None
      else Some (LStr q (acc @ [c]), []))"

fun lex_finish :: "lexst \<Rightarrow> token list option" where
  "lex_finish LStart = Some []"
| "lex_finish (LNum acc) = map_option (\<lambda>v. [TNum v]) (num_literal acc)"
| "lex_finish (LName acc) = Some [TName acc]"
| "lex_finish (LStr q acc) = None"

fun lex :: "lexst \<Rightarrow> string \<Rightarrow> token list option" where
  "lex st [] = lex_finish st"
| "lex st (c # cs) =
     (case lex_step st c of
        None \<Rightarrow> None
      | Some (st', ts) \<Rightarrow> map_option (\<lambda>us. ts @ us) (lex st' cs))"

section \<open>Parser\<close>

datatype pexpr =
    ELit pyval
  | EName string
  | ENeg pexpr
  | EPos pexpr
  | ETuple "pexpr list"

text \<open>
  A shift-reduce parser: one frame per open parenthesis (the outermost frame is
  the whole expression), each with the unary signs read for its next item, the
  items so far, whether a comma was seen, and whether an item is expected.
\<close>

datatype frame = Frame "bool list" "pexpr list" bool bool

definition apply_signs :: "bool list \<Rightarrow> pexpr \<Rightarrow> pexpr" where
  "apply_signs ss e = foldr (\<lambda>neg e. if neg then ENeg e else EPos e) ss e"

fun push_item :: "pexpr \<Rightarrow> frame \<Rightarrow> frame option" where
  "push_item e (Frame pend its cm want) =
     (if want then Some (Frame [] (its @ [apply_signs pend e]) cm False) else None)"

text \<open>The expression a frame stands for, once it is closed.\<close>

fun close_frame :: "frame \<Rightarrow> pexpr option" where
  "close_frame (Frame pend its cm want) =
     (if pend \<noteq> [] then None
      else if its = [] then (if want then Some (ETuple []) else None)
      else if want \<or> cm then Some (ETuple its)
      else Some (hd its))"

fun p_step :: "frame list \<Rightarrow> token \<Rightarrow> frame list option" where
  "p_step [] t = None"
| "p_step (Frame pend its cm want # fs) (TSign b) =
     (if want then Some (Frame (pend @ [b]) its cm want # fs) else None)"
| "p_step (f # fs) (TNum v) = map_option (\<lambda>f'. f' # fs) (push_item (ELit v) f)"
| "p_step (f # fs) (TStr s) = map_option (\<lambda>f'. f' # fs) (push_item (ELit (PStr s)) f)"
| "p_step (f # fs) (TName n) = map_option (\<lambda>f'. f' # fs) (push_item (EName n) f)"
| "p_step (Frame pend its cm want # fs) TLParen =
     (if want then Some (Frame [] [] False True # Frame pend its cm want # fs) else None)"
| "p_step (Frame pend its cm want # fs) TComma =
     (if \<not> want \<and> its \<noteq> [] then Some (Frame pend its True True # fs) else None)"
| "p_step (f # []) TRParen = None"
| "p_step (f # g # fs) TRParen =
     (case close_frame f of
        None \<Rightarrow> None
      | Some e \<Rightarrow> map_option (\<lambda>g'. g' # fs) (push_item e g))"

fun p_run :: "frame list \<Rightarrow> token list \<Rightarrow> frame list option" where
  "p_run fs [] = Some fs"
| "p_run fs (t # ts) = (case p_step fs t of None \<Rightarrow> None | Some fs' \<Rightarrow> p_run fs' ts)"

text \<open>
  At the end exactly the outermost frame is open; it must hold an item (an empty
  text is a \<open>SyntaxError\<close>, \<open>1,\<close> is a one-element tuple).
\<close>

fun p_finish :: "frame list \<Rightarrow> pexpr option" where
  "p_finish [Frame pend its cm want] = (if its = [] then None else close_frame (Frame pend its cm want))"
| "p_finish fs = None"

definition parse_expr :: "token list \<Rightarrow> pexpr option" where
  "parse_expr ts = (case p_run [Frame [] [] False True] ts of None \<Rightarrow> None | Some fs \<Rightarrow> p_finish fs)"

section \<open>Evaluation\<close>

datatype evres = EvVal pyval | EvObj | EvNameError string | EvOutside

text \<open>Python 3.7's keywords: as a value they are a \<open>SyntaxError\<close>, but for the three constants.\<close>

definition py_keywords :: "string list" where
  "py_keywords = [''and'', ''as'', ''assert'', ''async'', ''await'', ''break'', ''class'',
     ''continue'', ''def'', ''del'', ''elif'', ''else'', ''except'', ''finally'', ''for'',
     ''from'', ''global'', ''if'', ''import'', ''in'', ''is'', ''lambda'', ''nonlocal'',
     ''not'', ''or'', ''pass'', ''raise'', ''return'', ''try'', ''while'', ''with'', ''yield'']"

text \<open>The names of Python 3.7's \<open>builtins\<close> module, which \<open>eval\<close> always sees.\<close>

definition py_builtins :: "string list" where
  "py_builtins = [''ArithmeticError'', ''AssertionError'', ''AttributeError'', ''BaseException'',
     ''BlockingIOError'', ''BrokenPipeError'', ''BufferError'', ''BytesWarning'',
     ''ChildProcessError'', ''ConnectionAbortedError'', ''ConnectionError'',
     ''ConnectionRefusedError'', ''ConnectionResetError'', ''DeprecationWarning'', ''EOFError'',
     ''Ellipsis'', ''EnvironmentError'', ''Exception'', ''FileExistsError'', ''FileNotFoundError'',
     ''FloatingPointError'', ''FutureWarning'', ''GeneratorExit'', ''IOError'', ''ImportError'',
     ''ImportWarning'', ''IndentationError'', ''IndexError'', ''InterruptedError'',
     ''IsADirectoryError'', ''KeyError'', ''KeyboardInterrupt'', ''LookupError'', ''MemoryError'',
     ''ModuleNotFoundError'', ''NameError'', ''NotADirectoryError'', ''NotImplemented'',
     ''NotImplementedError'', ''OSError'', ''OverflowError'', ''PendingDeprecationWarning'',
     ''PermissionError'', ''ProcessLookupError'', ''RecursionError'', ''ReferenceError'',
     ''ResourceWarning'', ''RuntimeError'', ''RuntimeWarning'', ''StopAsyncIteration'',
     ''StopIteration'', ''SyntaxError'', ''SyntaxWarning'', ''SystemError'', ''SystemExit'',
     ''TabError'', ''TimeoutError'', ''TypeError'', ''UnboundLocalError'', ''UnicodeDecodeError'',
     ''UnicodeEncodeError'', ''UnicodeError'', ''UnicodeTranslateError'', ''UnicodeWarning'',
     ''UserWarning'', ''ValueError'', ''Warning'', ''ZeroDivisionError'', ''__build_class__'',
     ''__debug__'', ''__doc__'', ''__import__'', ''__loader__'', ''__name__'', ''__package__'',
     ''__spec__'', ''abs'', ''all'', ''any'', ''ascii'', ''bin'', ''bool'', ''breakpoint'',
     ''bytearray'', ''bytes'', ''callable'', ''chr'', ''classmethod'', ''compile'', ''complex'',
     ''copyright'', ''credits'', ''delattr'', ''dict'', ''dir'', ''divmod'', ''enumerate'', ''eval'',
     ''exec'', ''exit'', ''filter'', ''float'', ''format'', ''frozenset'', ''getattr'', ''globals'',
     ''hasattr'', ''hash'', ''help'', ''hex'', ''id'', ''input'', ''int'', ''isinstance'',
     ''issubclass'', ''iter'', ''len'', ''license'', ''list'', ''locals'', ''map'', ''max'',
     ''memoryview'', ''min'', ''next'', ''object'', ''oct'', ''open'', ''ord'', ''pow'', ''print'',
     ''property'', ''quit'', ''range'', ''repr'', ''reversed'', ''round'', ''set'', ''setattr'',
     ''slice'', ''sorted'', ''staticmethod'', ''str'', ''sum'', ''super'', ''tuple'', ''type'',
     ''vars'', ''zip'']"

text \<open>
  A name evaluates to a constant (\<open>True\<close>, \<open>False\<close>, \<open>None\<close>), to an object outside
  the fragment when it is bound in the scope \<open>scope\<close> of the call or a builtin,
  and raises \<open>NameError\<close> otherwise.  Keywords never get here: \<open>py_eval\<close> rejects
  them before evaluating.
\<close>

definition name_value :: "string list \<Rightarrow> string \<Rightarrow> evres" where
  "name_value scope n =
     (if n = ''True'' then EvVal (PBool True)
      else if n = ''False'' then EvVal (PBool False)
      else if n = ''None'' then EvVal PNone
      else if n \<in> set scope \<or> n \<in> set py_builtins then EvObj
      else EvNameError n)"

fun py_neg :: "pyval \<Rightarrow> evres" where
  "py_neg (PInt i) = EvVal (PInt (- i))"
| "py_neg (PFloat m e) = EvVal (PFloat (- m) e)"
| "py_neg (PBool b) = EvVal (PInt (if b then -1 else 0))"
| "py_neg v = EvOutside"

fun py_pos :: "pyval \<Rightarrow> evres" where
  "py_pos (PInt i) = EvVal (PInt i)"
| "py_pos (PFloat m e) = EvVal (PFloat m e)"
| "py_pos (PBool b) = EvVal (PInt (if b then 1 else 0))"
| "py_pos v = EvOutside"

text \<open>
  Evaluation is left to right; the first exception of a tuple's items
  propagates, and an item that is an object outside the fragment lets the
  evaluation of the later items go on.  A sign applied to such an object is
  outside the fragment (a value or a \<open>TypeError\<close>, depending on the object).
\<close>

fun ev :: "string list \<Rightarrow> pexpr \<Rightarrow> evres"
and ev_list :: "string list \<Rightarrow> pexpr list \<Rightarrow> pyval list \<Rightarrow> evres" where
  "ev scope (ELit v) = EvVal v"
| "ev scope (EName n) = name_value scope n"
| "ev scope (ENeg e) = (case ev scope e of EvVal v \<Rightarrow> py_neg v | EvObj \<Rightarrow> EvOutside | r \<Rightarrow> r)"
| "ev scope (EPos e) = (case ev scope e of EvVal v \<Rightarrow> py_pos v | EvObj \<Rightarrow> EvOutside | r \<Rightarrow> r)"
| "ev scope (ETuple es) = ev_list scope es []"
| "ev_list scope [] acc = EvVal (PTuple acc)"
| "ev_list scope (e # es) acc =
     (case ev scope e of
        EvVal v \<Rightarrow> ev_list scope es (acc @ [v])
      | EvObj \<Rightarrow> (case ev_list scope es acc of EvVal _ \<Rightarrow> EvObj | r \<Rightarrow> r)
      | r \<Rightarrow> r)"

text \<open>A keyword anywhere in the text is a \<open>SyntaxError\<close>, raised before any evaluation.\<close>

definition py_eval :: "string list \<Rightarrow> string \<Rightarrow> evres" where
  "py_eval scope s =
     (case lex LStart s of
        None \<Rightarrow> EvOutside
      | Some ts \<Rightarrow>
          (if list_ex (\<lambda>t. case t of TName n \<Rightarrow> n \<in> set py_keywords | _ \<Rightarrow> False) ts then EvOutside
           else case parse_expr ts of None \<Rightarrow> EvOutside | Some e \<Rightarrow> ev scope e))"

section \<open>Lexing identifiers and digit strings\<close>

lemma lex_name: "list_all is_ident_char cs \<Longrightarrow> lex (LName acc) cs = Some [TName (acc @ cs)]"
  by (induction cs arbitrary: acc) simp_all

lemma lex_start_ident: "is_ident_start c \<Longrightarrow> lex_start c = Some (LName [c], [])"
  by (auto simp: lex_start_def is_ident_start_def is_digit_def)

end
