(* ===== verification/MetadataStep.thy ===== *)
theory MetadataStep
  imports PyLiteral
begin

text \<open>
  The data and the loop body of the HDF-EOS structural-metadata parser
  \<open>parse_hdfeos_metadata\<close>, present identically in
  \<open>src/read_and_map_mcd_aerosol.py\<close> (lines 45--64) and
  \<open>src/read_mcd_aod_and_calculate_pm25.py\<close> (lines 51--70): the parsed tree, the
  exceptions the function raises, the line splitting, and one iteration of its
  \<open>while\<close> loop as \<open>md_body\<close>, with one lemma per branch of the iteration.  The
  loop itself is \<open>md_loop\<close> in theory \<open>Metadata\<close>.  The text is split into
  lines with tabs removed; a \<open>GROUP=v\<close> or \<open>OBJECT=v\<close> line is closed by the first
  line equal to \<open>END_GROUP=v\<close> / \<open>END_OBJECT=v\<close> that \<open>lines.index\<close> finds, the lines
  in between are parsed by a fresh recursive call, and the scan resumes at the
  closer.  Each exception the function raises is an \<open>Inl\<close> of \<open>md_error\<close>.
\<close>

section \<open>The parsed tree and the errors\<close>

datatype mdnode = MVal pyval | MGroup "(string \<times> mdnode) list"

type_synonym mdict = "(string, mdnode) odict"

datatype md_error =
    UnpackError string   \<comment> \<open>\<open>key,value = line.split('=')\<close> with more than one \<open>=\<close>\<close>
  | EndNotFound string   \<comment> \<open>\<open>lines.index\<close> raised \<open>ValueError\<close> for this closer\<close>
  | ValueOutside string  \<comment> \<open>\<open>eval\<close> raised another exception, or the value is outside the fragment\<close>

text \<open>
  The names bound where \<open>eval(value)\<close> runs: the function's locals, the module's
  dunder names, and the module-level names of the two scripts (imports, functions
  and the variables of the file loop, which are bound from the second file on).
  The local \<open>endIdx\<close> is bound only once a block of the same call has been
  parsed; it is counted as bound throughout, so before the first block the
  model gives \<open>ValueOutside\<close> for the value \<open>endIdx\<close> where Python keeps the
  string.
\<close>

definition parser_scope :: "string list" where
  "parser_scope = [''string'', ''out'', ''lines'', ''i'', ''line'', ''key'', ''value'', ''endIdx'',
     ''__name__'', ''__doc__'', ''__package__'', ''__loader__'', ''__spec__'', ''__annotations__'',
     ''__builtins__'', ''__file__'', ''__cached__'',
     ''pyproj'', ''np'', ''ma'', ''OrderedDict'', ''sys'', ''SD'', ''ccrs'', ''plt'',
     ''LONGITUDE_FORMATTER'', ''LATITUDE_FORMATTER'', ''LinearSegmentedColormap'', ''fileList'',
     ''parse_hdfeos_metadata'', ''construct_coords'', ''FILE_NAME'', ''user_input'', ''hdf'',
     ''attrs'', ''longitude'', ''latitude'', ''min_lat'', ''max_lat'', ''min_lon'', ''max_lon'',
     ''SDS_NAME'', ''sds'', ''data'', ''datamsk'', ''sdsgrid'', ''sdsAttrs'', ''scale_factor'',
     ''m'', ''extent'', ''grd'', ''plotTitle'', ''cb'', ''attributes'', ''range'', ''min_range'',
     ''max_range'', ''valid_data'', ''average'', ''stdev'', ''slope'', ''intercept'', ''pm25'',
     ''is_map'', ''my_cmap'', ''fig'']"

text \<open>\<open>try: out[key] = eval(value) except NameError: out[key] = str(value)\<close>\<close>

definition eval_value :: "string \<Rightarrow> md_error + mdnode" where
  "eval_value value =
     (case py_eval parser_scope value of
        EvVal v \<Rightarrow> Inr (MVal v)
      | EvNameError n \<Rightarrow> Inr (MVal (PStr value))
      | EvObj \<Rightarrow> Inl (ValueOutside value)
      | EvOutside \<Rightarrow> Inl (ValueOutside value))"

section \<open>The parser\<close>

text \<open>\<open>lines = [i.replace('\t','') for i in string.split('\n')]\<close>\<close>

definition md_lines :: "string \<Rightarrow> string list" where
  "md_lines s = map (removeAll CHR 0x09) (py_split CHR 0x0A s)"

text \<open>The closer that \<open>lines.index\<close> looks for: \<open>'END_{}={}'.format(key,value)\<close>.\<close>

definition closer :: "string \<Rightarrow> string \<Rightarrow> string" where
  "closer key value = ''END_'' @ key @ ''='' @ value"

text \<open>
  One iteration of the \<open>while\<close> loop (lines 49--63), with \<open>i\<close> the index of the
  line last looked at (\<open>-1\<close> at the start), \<open>out\<close> the dictionary built so far
  and \<open>f\<close> the rest of the computation: \<open>f lines i' out'\<close> continues the loop, and
  \<open>f (md_lines s) (-1) []\<close> is the fresh recursive call
  \<open>parse_hdfeos_metadata(s)\<close> on the enclosed lines.
\<close>

definition md_body ::
  "(string list \<Rightarrow> int \<Rightarrow> mdict \<Rightarrow> (md_error + mdict) option) \<Rightarrow>
   string list \<Rightarrow> int \<Rightarrow> mdict \<Rightarrow> (md_error + mdict) option" where
  "md_body f lines i out =
     (if i < int (length lines) - 1 then
        (if CHR ''='' \<in> set (lines ! nat (i + 1)) then
           (case py_split CHR ''='' (lines ! nat (i + 1)) of
              [key, value] \<Rightarrow>
                (if key \<in> set [''GROUP'', ''OBJECT''] then
                   (case py_index lines (closer key value) of
                      None \<Rightarrow> Some (Inl (EndNotFound (closer key value)))
                    | Some endIdx \<Rightarrow>
                        Option.bind
                          (f (md_lines (py_join CHR 0x0A
                             (py_slice lines (nat (i + 1) + 1) endIdx))) (-1) [])
                          (\<lambda>r. case r of
                                 Inl e \<Rightarrow> Some (Inl e)
                               | Inr sub \<Rightarrow> f lines (int endIdx) (od_set out value (MGroup sub))))
                 else if \<not> py_in ''END_GROUP'' key \<and> \<not> py_in ''END_OBJECT'' key then
                   (case eval_value value of
                      Inl e \<Rightarrow> Some (Inl e)
                    | Inr v \<Rightarrow> f lines (i + 1) (od_set out key v))
                 else f lines (i + 1) out)
            | _ \<Rightarrow> Some (Inl (UnpackError (lines ! nat (i + 1)))))
         else f lines (i + 1) out)
      else Some (Inr out))"

definition opener_closer :: "string \<Rightarrow> string option" where
  "opener_closer line =
     (case py_split CHR ''='' line of
        [key, value] \<Rightarrow> (if key \<in> set [''GROUP'', ''OBJECT''] then Some (closer key value) else None)
      | _ \<Rightarrow> None)"

text \<open>
  The condition under which the loop only moves forward: no line \<open>END_k=v\<close>
  occurs before a line \<open>k=v\<close> that opens a block (\<open>seen\<close> is the lines before).
\<close>

fun closers_follow_from :: "string list \<Rightarrow> string list \<Rightarrow> bool" where
  "closers_follow_from seen [] = True"
| "closers_follow_from seen (l # ls) \<longleftrightarrow>
     (case opener_closer l of None \<Rightarrow> True | Some c \<Rightarrow> c \<notin> set seen) \<and>
     closers_follow_from (seen @ [l]) ls"

abbreviation closers_follow :: "string list \<Rightarrow> bool" where
  "closers_follow lines \<equiv> closers_follow_from [] lines"

text \<open>Lines as \<open>md_lines\<close> makes them: no newline, no tab.\<close>

definition md_clean :: "string list \<Rightarrow> bool" where
  "md_clean lines \<longleftrightarrow> list_all (\<lambda>l. CHR 0x0A \<notin> set l \<and> CHR 0x09 \<notin> set l) lines"

section \<open>The branches of one iteration\<close>

lemma md_body_mono [partial_function_mono]:
  "mono_option (\<lambda>f. md_body (\<lambda>a b c. f ((a, b), c)) lines i out)"
  unfolding md_body_def by (intro partial_function_mono mono_option_cases)

abbreviation md_line :: "string list \<Rightarrow> int \<Rightarrow> string" where
  "md_line lines i \<equiv> lines ! nat (i + 1)"

abbreviation md_more :: "string list \<Rightarrow> int \<Rightarrow> bool" where
  "md_more lines i \<equiv> i < int (length lines) - 1"

lemma md_body_stop: "\<not> md_more lines i \<Longrightarrow> md_body f lines i out = Some (Inr out)"
  by (simp add: md_body_def)

lemma md_body_skip:
  "md_more lines i \<Longrightarrow> CHR ''='' \<notin> set (md_line lines i) \<Longrightarrow>
   md_body f lines i out = f lines (i + 1) out"
  by (simp add: md_body_def)

lemma md_body_unpack:
  "md_more lines i \<Longrightarrow> CHR ''='' \<in> set (md_line lines i) \<Longrightarrow>
   length (py_split CHR ''='' (md_line lines i)) \<noteq> 2 \<Longrightarrow>
   md_body f lines i out = Some (Inl (UnpackError (md_line lines i)))"
  by (auto simp: md_body_def split: list.splits)

lemma md_body_missing:
  "md_more lines i \<Longrightarrow> py_split CHR ''='' (md_line lines i) = [k, v] \<Longrightarrow>
   k \<in> set [''GROUP'', ''OBJECT''] \<Longrightarrow> py_index lines (closer k v) = None \<Longrightarrow>
   md_body f lines i out = Some (Inl (EndNotFound (closer k v)))"
  using py_split_sep_in [of "CHR ''=''" "md_line lines i"]
  by (simp add: md_body_def del: py_index_None_iff)

lemma md_body_block:
  "md_more lines i \<Longrightarrow> py_split CHR ''='' (md_line lines i) = [k, v] \<Longrightarrow>
   k \<in> set [''GROUP'', ''OBJECT''] \<Longrightarrow> py_index lines (closer k v) = Some e \<Longrightarrow>
   md_body f lines i out =
     Option.bind (f (md_lines (py_join CHR 0x0A (py_slice lines (nat (i + 1) + 1) e))) (-1) [])
       (\<lambda>r. case r of Inl err \<Rightarrow> Some (Inl err) | Inr sub \<Rightarrow> f lines (int e) (od_set out v (MGroup sub)))"
  using py_split_sep_in [of "CHR ''=''" "md_line lines i"] by (simp add: md_body_def)

lemma md_body_endline:
  "md_more lines i \<Longrightarrow> py_split CHR ''='' (md_line lines i) = [k, v] \<Longrightarrow>
   k \<notin> set [''GROUP'', ''OBJECT''] \<Longrightarrow> py_in ''END_GROUP'' k \<or> py_in ''END_OBJECT'' k \<Longrightarrow>
   md_body f lines i out = f lines (i + 1) out"
  using py_split_sep_in [of "CHR ''=''" "md_line lines i"] by (auto simp: md_body_def)

lemma md_body_leaf:
  "md_more lines i \<Longrightarrow> py_split CHR ''='' (md_line lines i) = [k, v] \<Longrightarrow>
   k \<notin> set [''GROUP'', ''OBJECT''] \<Longrightarrow> \<not> py_in ''END_GROUP'' k \<Longrightarrow> \<not> py_in ''END_OBJECT'' k \<Longrightarrow>
   md_body f lines i out =
     (case eval_value v of Inl e \<Rightarrow> Some (Inl e) | Inr x \<Rightarrow> f lines (i + 1) (od_set out k x))"
  using py_split_sep_in [of "CHR ''=''" "md_line lines i"] by (simp add: md_body_def)

text \<open>The seven branches, as a case rule for proofs about the loop.\<close>

lemma md_step_cases [case_names stop skip unpack missing block endline leaf]:
  obtains "\<not> md_more lines i"
  | "md_more lines i" "CHR ''='' \<notin> set (md_line lines i)"
  | "md_more lines i" "CHR ''='' \<in> set (md_line lines i)"
      "length (py_split CHR ''='' (md_line lines i)) \<noteq> 2"
  | k v where "md_more lines i" "py_split CHR ''='' (md_line lines i) = [k, v]"
      "k \<in> set [''GROUP'', ''OBJECT'']" "py_index lines (closer k v) = None"
  | k v e where "md_more lines i" "py_split CHR ''='' (md_line lines i) = [k, v]"
      "k \<in> set [''GROUP'', ''OBJECT'']" "py_index lines (closer k v) = Some e"
  | k v where "md_more lines i" "py_split CHR ''='' (md_line lines i) = [k, v]"
      "k \<notin> set [''GROUP'', ''OBJECT'']" "py_in ''END_GROUP'' k \<or> py_in ''END_OBJECT'' k"
  | k v where "md_more lines i" "py_split CHR ''='' (md_line lines i) = [k, v]"
      "k \<notin> set [''GROUP'', ''OBJECT'']" "\<not> py_in ''END_GROUP'' k" "\<not> py_in ''END_OBJECT'' k"
proof (cases "md_more lines i")
  case False
  then show ?thesis by (rule that(1))
next
  case more: True
  show ?thesis
  proof (cases "CHR ''='' \<in> set (md_line lines i)")
    case False
    with more show ?thesis by (rule that(2))
  next
    case eq: True
    consider (other) "length (py_split CHR ''='' (md_line lines i)) \<noteq> 2"
      | (pair) k v where "py_split CHR ''='' (md_line lines i) = [k, v]"
      by (metis (no_types, lifting) length_0_conv length_Suc_conv numeral_2_eq_2)
    then show ?thesis
    proof cases
      case other
      with more eq show ?thesis by (rule that(3))
    next
      case (pair k v)
      show ?thesis
      proof (cases "k \<in> set [''GROUP'', ''OBJECT'']")
        case True
        then show ?thesis
          using more pair that(4,5) by (cases "py_index lines (closer k v)") auto
      next
        case False
        then show ?thesis
          using more pair that(6,7) by blast
      qed
    qed
  qed
qed

section \<open>Line splitting and the order of closers\<close>

lemma md_lines_Nil [simp]: "md_lines [] = [[]]"
  by (simp add: md_lines_def)

lemma opener_closer_Nil [simp]: "opener_closer [] = None"
  by (simp add: opener_closer_def)

lemma md_clean_md_lines: "md_clean (md_lines s)"
  by (auto simp: md_clean_def md_lines_def list_all_iff dest: py_split_pieces)

lemma md_lines_join:
  "md_clean ls \<Longrightarrow> md_lines (py_join CHR 0x0A ls) = (if ls = [] then [[]] else ls)"
  by (auto simp: md_clean_def md_lines_def list_all_iff py_split_join intro: map_idI)

lemma md_clean_slice: "md_clean lines \<Longrightarrow> md_clean (py_slice lines a b)"
  using py_slice_subset by (fastforce simp: md_clean_def list_all_iff)

lemma closers_follow_from_nth:
  "closers_follow_from seen ls \<longleftrightarrow>
   (\<forall>j < length ls. \<forall>c. opener_closer (ls ! j) = Some c \<longrightarrow> c \<notin> set (seen @ take j ls))"
proof (induction ls arbitrary: seen)
  case Nil
  then show ?case by simp
next
  case (Cons l ls)
  show ?case
    by (simp add: Cons.IH All_less_Suc2 conj_ac split: option.split)
qed

lemma closers_follow_nth:
  "closers_follow ls \<longleftrightarrow>
   (\<forall>j < length ls. \<forall>c. opener_closer (ls ! j) = Some c \<longrightarrow> c \<notin> set (take j ls))"
  by (simp add: closers_follow_from_nth)

lemma closers_follow_slice:
  assumes cf: "closers_follow lines"
  shows "closers_follow (py_slice lines a b)"
  unfolding closers_follow_nth
proof (intro allI impI)
  fix j c
  assume j: "j < length (py_slice lines a b)" and c: "opener_closer (py_slice lines a b ! j) = Some c"
  from py_slice_nth [OF j] have aj: "a + j < length lines"
    and nth: "py_slice lines a b ! j = lines ! (a + j)" by auto
  from cf aj c nth have "c \<notin> set (take (a + j) lines)"
    by (simp add: closers_follow_nth)
  with py_slice_take_subset [OF j] show "c \<notin> set (take j (py_slice lines a b))" by blast
qed

lemma closer_not_opener:
  "CHR ''='' \<notin> set k \<Longrightarrow> CHR ''='' \<notin> set v \<Longrightarrow> py_split CHR ''='' (closer k v) \<noteq> [k, v]"
  by (simp add: closer_def py_split_pair)

lemma closer_after_opener:
  assumes cf: "closers_follow lines" and p: "p < length lines"
    and sp: "py_split CHR ''='' (lines ! p) = [k, v]" and k: "k \<in> set [''GROUP'', ''OBJECT'']"
    and e: "py_index lines (closer k v) = Some e"
  shows "p < e"
proof (rule ccontr)
  assume "\<not> p < e"
  then consider "e < p" | "e = p" by linarith
  then show False
  proof cases
    case 1
    have "opener_closer (lines ! p) = Some (closer k v)"
      using sp k by (simp add: opener_closer_def)
    with cf p have "closer k v \<notin> set (take p lines)"
      by (simp add: closers_follow_nth)
    moreover from e have "lines ! e = closer k v" by (simp add: py_index_Some_nth)
    moreover have "take p lines ! e \<in> set (take p lines)"
      using 1 p by (intro nth_mem) simp
    ultimately show False
      using 1 by simp
  next
    case 2
    from e 2 have "lines ! p = closer k v" by (simp add: py_index_Some_nth)
    moreover have "CHR ''='' \<notin> set k" "CHR ''='' \<notin> set v"
      using sp py_split_pieces [of _ "CHR ''=''" "lines ! p"] by auto
    ultimately show False
      using sp closer_not_opener by metis
  qed
qed

text \<open>
  C24: the \<open>except NameError\<close> branch of the parser.  A metadata value that is
  an identifier bound neither in the parser's scope nor among the builtins,
  and is not a keyword or one of \<open>True\<close>, \<open>False\<close>, \<open>None\<close>, is kept as the
  string itself (as \<open>str(value)\<close> does).
\<close>

theorem eval_value_unbound_name:
  assumes "is_ident_start c" "list_all is_ident_char cs"
    and "c # cs \<notin> set parser_scope" "c # cs \<notin> set py_builtins" "c # cs \<notin> set py_keywords"
    and "c # cs \<notin> {''True'', ''False'', ''None''}"
  shows "eval_value (c # cs) = Inr (MVal (PStr (c # cs)))"
proof -
  have "lex LStart (c # cs) = Some [TName (c # cs)]"
    using assms(1,2) by (simp add: lex_start_ident lex_name)
  moreover have "parse_expr [TName (c # cs)] = Some (EName (c # cs))"
    by (simp add: parse_expr_def apply_signs_def)
  ultimately show ?thesis
    using assms(3-6) by (simp add: eval_value_def py_eval_def name_value_def)
qed

theorem eval_value_unbound_name_witness:
  "eval_value ''HDFE_GD_UL'' = Inr (MVal (PStr ''HDFE_GD_UL''))"
  by (rule eval_value_unbound_name)
     (simp_all add: is_ident_start_def is_ident_char_def is_digit_def parser_scope_def py_builtins_def py_keywords_def)

end
