(* ===== verification/Metadata.thy ===== *)
theory Metadata
  imports MetadataStep
begin

text \<open>
  The loop of \<open>parse_hdfeos_metadata\<close> (\<open>src/read_and_map_mcd_aerosol.py\<close>
  lines 45--64, \<open>src/read_mcd_aod_and_calculate_pm25.py\<close> lines 51--70) as a
  \<open>partial_function (option)\<close> over the body \<open>md_body\<close>: \<open>None\<close> is a loop that
  does not end.  The theorems: the loop ends on every input whose block closers
  follow their openers, it does not end on two sibling blocks of the same name,
  and its errors.
\<close>

text \<open>The loop, and the function: \<open>None\<close> is a loop that does not end.\<close>

partial_function (option) md_loop :: "string list \<Rightarrow> int \<Rightarrow> mdict \<Rightarrow> (md_error + mdict) option" where
  "md_loop lines i out = md_body md_loop lines i out"

declare md_loop.simps [code]

definition parse_md :: "string \<Rightarrow> (md_error + mdict) option" where
  "parse_md s = md_loop (md_lines s) (-1) []"

text \<open>
  Two sibling blocks of the same kind and name, each closed: the input on which
  \<open>lines.index\<close> finds the first closer again for the second block.
\<close>

definition dup_blocks :: "string \<Rightarrow> string \<Rightarrow> string list" where
  "dup_blocks k v = [k @ ''='' @ v, closer k v, k @ ''='' @ v, closer k v]"

text \<open>A grid block as HDF-EOS writes it, indented by tabs.\<close>

definition grid_md :: string where
  "grid_md = py_join CHR 0x0A [''GROUP=GRID_1'', CHR 0x09 # ''XDim=1200'', ''END_GROUP=GRID_1'']"

section \<open>Termination\<close>

lemma md_loop_unfold: "md_loop lines i out = md_body md_loop lines i out"
  by (rule md_loop.simps)

lemma md_loop_total_from:
  assumes sub: "\<And>ls. length ls < length lines \<Longrightarrow> md_clean ls \<Longrightarrow> closers_follow ls \<Longrightarrow>
                   \<exists>r. md_loop ls (-1) [] = Some r"
    and clean: "md_clean lines" and cf: "closers_follow lines"
  shows "-1 \<le> i \<Longrightarrow> \<exists>r. md_loop lines i out = Some r"
proof (induction "nat (int (length lines) - i)" arbitrary: i out rule: less_induct)
  case less
  have IH: "\<exists>r. md_loop lines j out' = Some r" if "i < j" "j \<le> int (length lines)" for j out'
    using that less.prems by (intro less.hyps) auto
  note unfold = md_loop_unfold [of lines i out]
  show ?case
  proof (cases rule: md_step_cases [where lines = lines and i = i])
    case stop
    then show ?thesis by (simp add: unfold md_body_stop)
  next
    case skip
    then show ?thesis using IH [of "i + 1" out] by (simp add: unfold md_body_skip)
  next
    case unpack
    then show ?thesis by (simp add: unfold md_body_unpack)
  next
    case (missing k v)
    then show ?thesis by (simp add: unfold md_body_missing)
  next
    case (block k v e)
    let ?p = "nat (i + 1)"
    let ?sl = "py_slice lines (?p + 1) e"
    let ?sub = "md_lines (py_join CHR 0x0A ?sl)"
    have p: "?p < length lines" using block(1) less.prems by linarith
    have pe: "?p < e" using closer_after_opener [OF cf p block(2,3,4)] .
    have el: "e < length lines" using py_index_Some_nth [OF block(4)] by simp
    have sl_clean: "md_clean ?sl" using clean by (rule md_clean_slice)
    have sub_eq: "?sub = (if ?sl = [] then [[]] else ?sl)" using sl_clean by (rule md_lines_join)
    have "length ?sub < length lines"
      unfolding sub_eq using pe el by (auto simp: py_slice_length)
    moreover have "md_clean ?sub"
      unfolding sub_eq using sl_clean by (simp add: md_clean_def)
    moreover have "closers_follow ?sub"
      unfolding sub_eq using closers_follow_slice [OF cf] by simp
    ultimately obtain r0 where r0: "md_loop ?sub (-1) [] = Some r0" by (blast dest: sub)
    show ?thesis
    proof (cases r0)
      case (Inl err)
      then show ?thesis using r0 block by (simp add: unfold md_body_block)
    next
      case (Inr d)
      have ie: "i < int e" using pe less.prems by (simp add: nat_less_iff)
      obtain r where "md_loop lines (int e) (od_set out v (MGroup d)) = Some r"
        using IH [OF ie, of "od_set out v (MGroup d)"] el by auto
      then show ?thesis using r0 Inr block by (simp add: unfold md_body_block)
    qed
  next
    case (endline k v)
    then show ?thesis using IH [of "i + 1" out] by (simp add: unfold md_body_endline)
  next
    case (leaf k v)
    then show ?thesis
      using IH [of "i + 1"] by (simp add: unfold md_body_leaf split: sum.split)
  qed
qed

lemma md_loop_total:
  "md_clean lines \<Longrightarrow> closers_follow lines \<Longrightarrow> -1 \<le> i \<Longrightarrow> \<exists>r. md_loop lines i out = Some r"
proof (induction "length lines" arbitrary: lines i out rule: less_induct)
  case less
  show ?case
  proof (rule md_loop_total_from [OF _ less.prems])
    fix ls :: "string list"
    assume "length ls < length lines" "md_clean ls" "closers_follow ls"
    then show "\<exists>r. md_loop ls (-1) [] = Some r"
      using less.hyps by simp
  qed
qed

text \<open>
  C1: the parser returns (a result or an exception) on every text in which no
  \<open>END_GROUP=v\<close> / \<open>END_OBJECT=v\<close> line occurs before a line that opens a block
  with that closer.
\<close>

theorem parse_md_terminates: "closers_follow (md_lines s) \<Longrightarrow> \<exists>r. parse_md s = Some r"
  unfolding parse_md_def by (rule md_loop_total) (simp_all add: md_clean_md_lines)

theorem parse_md_terminates_witness:
  "closers_follow (md_lines grid_md) \<and> (\<exists>r. parse_md grid_md = Some r)"
proof -
  have h: "closers_follow (md_lines grid_md)" by code_simp
  show ?thesis using h parse_md_terminates [OF h] by simp
qed

section \<open>Non-termination on repeated block names\<close>

lemma md_body_blank:
  "md_body f [[]] (-1) [] = f [[]] 0 []" "md_body f [[]] 0 [] = Some (Inr [])"
  by (simp_all add: md_body_def)

lemma md_loop_blank: "md_loop [[]] (-1) [] = Some (Inr [])"
  by (simp add: md_loop_unfold [of "[[]]"] md_body_blank)

lemma opener_not_closer: "k @ CHR ''='' # v \<noteq> closer k v"
  by (simp add: closer_def)

lemma md_loop_dup_diverges:
  assumes k: "k \<in> set [''GROUP'', ''OBJECT'']" and v: "CHR ''='' \<notin> set v"
  shows "md_loop (dup_blocks k v) 1 [(v, MGroup [])] = None"
proof -
  let ?L = "dup_blocks k v" and ?d = "[(v, MGroup [])]"
  have keq: "CHR ''='' \<notin> set k" using k by auto
  have more: "md_more ?L 1" by (simp add: dup_blocks_def)
  have sp: "py_split CHR ''='' (md_line ?L 1) = [k, v]"
    using keq v by (simp add: dup_blocks_def py_split_pair)
  have ix: "py_index ?L (closer k v) = Some 1"
    using opener_not_closer [of k v] by (simp add: dup_blocks_def)
  have body: "md_body f ?L 1 ?d =
      Option.bind (f [[]] (-1) [])
        (\<lambda>r. case r of Inl err \<Rightarrow> Some (Inl err)
             | Inr sub \<Rightarrow> f ?L (int 1) (od_set ?d v (MGroup sub)))" for f
    using md_body_block [OF more sp k ix, of f ?d] by (simp add: py_slice_def)
  have inv: "(lines = ?L \<and> i = 1 \<and> out = ?d \<longrightarrow> False) \<and>
             (lines = [[]] \<and> (i = -1 \<or> i = 0) \<and> out = [] \<longrightarrow> r = Inr [])"
    if ret: "md_loop lines i out = Some r" for lines i out r
  proof (rule md_loop.raw_induct [where P = "\<lambda>lines i out r.
           (lines = ?L \<and> i = 1 \<and> out = ?d \<longrightarrow> False) \<and>
           (lines = [[]] \<and> (i = -1 \<or> i = 0) \<and> out = [] \<longrightarrow> r = Inr [])", OF _ ret])
    fix f lines i out r
    assume IH: "\<And>lines i out r. f lines i out = Some r \<Longrightarrow>
                  (lines = ?L \<and> i = 1 \<and> out = ?d \<longrightarrow> False) \<and>
                  (lines = [[]] \<and> (i = -1 \<or> i = 0) \<and> out = [] \<longrightarrow> r = Inr [])"
      and eq: "md_body f lines i out = Some r"
    show "(lines = ?L \<and> i = 1 \<and> out = ?d \<longrightarrow> False) \<and>
          (lines = [[]] \<and> (i = -1 \<or> i = 0) \<and> out = [] \<longrightarrow> r = Inr [])"
    proof (intro conjI impI)
      assume "lines = ?L \<and> i = 1 \<and> out = ?d"
      with eq body have b: "Option.bind (f [[]] (-1) [])
          (\<lambda>r. case r of Inl err \<Rightarrow> Some (Inl err)
               | Inr sub \<Rightarrow> f ?L (int 1) (od_set ?d v (MGroup sub))) = Some r"
        by simp
      then obtain r0 where r0: "f [[]] (-1) [] = Some r0"
        by (cases "f [[]] (-1) []") auto
      with IH have "r0 = Inr []" by blast
      with b r0 have "f ?L 1 ?d = Some r" by simp
      with IH show False by blast
    next
      assume c: "lines = [[]] \<and> (i = -1 \<or> i = 0) \<and> out = []"
      then show "r = Inr []"
      proof (elim conjE disjE)
        assume "lines = [[]]" "i = -1" "out = []"
        with eq have "f [[]] 0 [] = Some r" by (simp add: md_body_blank)
        with IH show "r = Inr []" by blast
      next
        assume "lines = [[]]" "i = 0" "out = []"
        with eq show "r = Inr []" by (simp add: md_body_blank)
      qed
    qed
  qed
  show ?thesis
    using inv [of ?L 1 ?d] by (cases "md_loop ?L 1 ?d") auto
qed

text \<open>
  C2: two sibling blocks with the same kind and name (for instance two
  \<open>OBJECT=GRID_1\<close> blocks) make the parser loop for ever: the second opener finds
  the first block's closer, the index jumps back to it, and the scan repeats.
  The spec asks for both blocks to be kept apart.
\<close>

theorem parse_md_duplicate_blocks_diverge:
  assumes k: "k \<in> set [''GROUP'', ''OBJECT'']"
    and v: "CHR ''='' \<notin> set v" "CHR 0x0A \<notin> set v" "CHR 0x09 \<notin> set v"
  shows "parse_md (py_join CHR 0x0A (dup_blocks k v)) = None"
proof -
  let ?L = "dup_blocks k v"
  have keq: "CHR ''='' \<notin> set k" using k by auto
  have clean: "md_clean ?L"
    using k v by (auto simp: md_clean_def dup_blocks_def closer_def)
  have lines: "md_lines (py_join CHR 0x0A ?L) = ?L"
    using md_lines_join [OF clean] unfolding dup_blocks_def by simp
  have more: "md_more ?L (-1)" by (simp add: dup_blocks_def)
  have sp: "py_split CHR ''='' (md_line ?L (-1)) = [k, v]"
    using keq v by (simp add: dup_blocks_def py_split_pair)
  have ix: "py_index ?L (closer k v) = Some 1"
    using opener_not_closer [of k v] by (simp add: dup_blocks_def)
  have "md_loop ?L (-1) [] = md_loop ?L 1 [(v, MGroup [])]"
    using md_body_block [OF more sp k ix, of md_loop "[]"]
    by (simp add: md_loop_unfold [of ?L "-1"] py_slice_def md_loop_blank)
  then show ?thesis
    using md_loop_dup_diverges [OF k v(1)] by (simp add: parse_md_def lines)
qed

theorem parse_md_duplicate_blocks_diverge_witness:
  "''OBJECT'' \<in> set [''GROUP'', ''OBJECT''] \<and> CHR ''='' \<notin> set ''GRID_1'' \<and>
   CHR 0x0A \<notin> set ''GRID_1'' \<and> CHR 0x09 \<notin> set ''GRID_1'' \<and>
   parse_md (py_join CHR 0x0A (dup_blocks ''OBJECT'' ''GRID_1'')) = None"
  using parse_md_duplicate_blocks_diverge [of "''OBJECT''" "''GRID_1''"] by simp

section \<open>Errors and ignored lines\<close>

text \<open>
  C3: a block whose closer never occurs raises \<open>ValueError\<close> from \<open>lines.index\<close>:
  the parser reports the missing \<open>END_GROUP=v\<close> / \<open>END_OBJECT=v\<close>.
\<close>

theorem parse_md_unclosed_block:
  assumes lines: "md_lines s = (k @ ''='' @ v) # rest"
    and k: "k \<in> set [''GROUP'', ''OBJECT'']" and v: "CHR ''='' \<notin> set v"
    and rest: "closer k v \<notin> set rest"
  shows "parse_md s = Some (Inl (EndNotFound (closer k v)))"
proof -
  let ?L = "md_lines s"
  have keq: "CHR ''='' \<notin> set k" using k by auto
  have more: "md_more ?L (-1)" using lines by simp
  have sp: "py_split CHR ''='' (md_line ?L (-1)) = [k, v]"
    using lines keq v by (simp add: py_split_pair)
  have ix: "py_index ?L (closer k v) = None"
    using lines rest opener_not_closer [of k v] by simp
  show ?thesis
    using md_body_missing [OF more sp k ix, of md_loop "[]"]
    by (simp add: parse_md_def md_loop_unfold [of ?L "-1" "[]"])
qed

theorem parse_md_unclosed_block_witness:
  "md_lines (py_join CHR 0x0A [''GROUP=GridStructure'', ''XDim=1200'']) =
     (''GROUP'' @ ''='' @ ''GridStructure'') # [''XDim=1200''] \<and>
   ''GROUP'' \<in> set [''GROUP'', ''OBJECT''] \<and> CHR ''='' \<notin> set ''GridStructure'' \<and>
   closer ''GROUP'' ''GridStructure'' \<notin> set [''XDim=1200''] \<and>
   parse_md (py_join CHR 0x0A [''GROUP=GridStructure'', ''XDim=1200'']) =
     Some (Inl (EndNotFound (closer ''GROUP'' ''GridStructure'')))"
proof -
  have l: "md_lines (py_join CHR 0x0A [''GROUP=GridStructure'', ''XDim=1200'']) =
     (''GROUP'' @ ''='' @ ''GridStructure'') # [''XDim=1200'']" by code_simp
  have c: "closer ''GROUP'' ''GridStructure'' \<notin> set [''XDim=1200'']"
    by (simp add: closer_def)
  show ?thesis using l c parse_md_unclosed_block [OF l _ _ c] by simp
qed

text \<open>
  C4: a closer with no matching opener is skipped without error (the key
  \<open>END_GROUP\<close> / \<open>END_OBJECT\<close> is never stored), where the spec asks for a
  \<open>MalformedMetadataError\<close>.
\<close>

theorem parse_md_stray_closer:
  assumes k: "k \<in> set [''GROUP'', ''OBJECT'']"
    and v: "CHR ''='' \<notin> set v" "CHR 0x0A \<notin> set v" "CHR 0x09 \<notin> set v"
  shows "parse_md (closer k v) = Some (Inr [])"
proof -
  let ?L = "[closer k v]"
  have keq: "CHR ''='' \<notin> set k" and ek: "CHR 0x0A \<notin> set k" "CHR 0x09 \<notin> set k"
    using k by auto
  have lines: "md_lines (closer k v) = ?L"
    using ek v by (simp add: md_lines_def closer_def)
  have more: "md_more ?L (-1)" by simp
  have "py_split CHR ''='' ((''END_'' @ k) @ CHR ''='' # v) = [''END_'' @ k, v]"
    by (rule py_split_pair) (use keq v in simp)+
  then have sp: "py_split CHR ''='' (md_line ?L (-1)) = [''END_'' @ k, v]"
    by (simp add: closer_def)
  have notk: "''END_'' @ k \<notin> set [''GROUP'', ''OBJECT'']" using k by auto
  have endk: "py_in ''END_GROUP'' (''END_'' @ k) \<or> py_in ''END_OBJECT'' (''END_'' @ k)"
    using k by auto
  have "md_loop ?L (-1) [] = md_loop ?L 0 []"
    using md_body_endline [OF more sp notk endk, of md_loop "[]"]
    by (simp add: md_loop_unfold [of ?L "-1" "[]"])
  also have "\<dots> = Some (Inr [])"
    by (simp add: md_loop_unfold [of ?L 0 "[]"] md_body_stop)
  finally show ?thesis by (simp add: parse_md_def lines)
qed

theorem parse_md_stray_closer_witness:
  "''GROUP'' \<in> set [''GROUP'', ''OBJECT''] \<and> CHR ''='' \<notin> set ''GRID_1'' \<and>
   CHR 0x0A \<notin> set ''GRID_1'' \<and> CHR 0x09 \<notin> set ''GRID_1'' \<and>
   parse_md (closer ''GROUP'' ''GRID_1'') = Some (Inr [])"
  using parse_md_stray_closer [of "''GROUP''" "''GRID_1''"] by simp

text \<open>
  C5: a line with more than one \<open>=\<close> (for instance a quoted string value that
  contains \<open>=\<close>) makes \<open>key,value = line.split('=')\<close> raise \<open>ValueError\<close>.
\<close>

theorem parse_md_unpack_error:
  assumes lines: "md_lines s = l # rest"
    and eq: "CHR ''='' \<in> set l" and two: "length (py_split CHR ''='' l) \<noteq> 2"
  shows "parse_md s = Some (Inl (UnpackError l))"
proof -
  have more: "md_more (md_lines s) (-1)" using lines by simp
  show ?thesis
    using md_body_unpack [OF more, of md_loop "[]"] lines eq two
    by (simp add: parse_md_def md_loop_unfold [of "l # rest" "-1" "[]"])
qed

theorem parse_md_unpack_error_witness:
  "md_lines ''GridName=\"a=b\"'' = ''GridName=\"a=b\"'' # [] \<and>
   CHR ''='' \<in> set ''GridName=\"a=b\"'' \<and> length (py_split CHR ''='' ''GridName=\"a=b\"'') \<noteq> 2 \<and>
   parse_md ''GridName=\"a=b\"'' = Some (Inl (UnpackError ''GridName=\"a=b\"''))"
proof -
  have l: "md_lines ''GridName=\"a=b\"'' = ''GridName=\"a=b\"'' # []" by code_simp
  have e: "CHR ''='' \<in> set ''GridName=\"a=b\"''" by simp
  have t: "length (py_split CHR ''='' ''GridName=\"a=b\"'') \<noteq> 2" by code_simp
  show ?thesis using l e t parse_md_unpack_error [OF l e t] by simp
qed

text \<open>
  C6: tab characters are insignificant: the parser gives the same result on a
  text and on the text with every tab removed.
\<close>

theorem parse_md_ignores_tabs: "parse_md (removeAll CHR 0x09 s) = parse_md s"
proof -
  have idem: "removeAll CHR 0x09 (removeAll CHR 0x09 l) = removeAll CHR 0x09 l" for l :: string
    by (induction l) auto
  show ?thesis
    by (simp add: parse_md_def md_lines_def py_split_removeAll comp_def idem)
qed

end
