(* ===== verification/Grid.thy ===== *)
theory Grid
  imports Metadata
begin

text \<open>
  The coordinate reconstruction \<open>construct_coords\<close>, present identically in
  \<open>src/read_and_map_mcd_aerosol.py\<close> (lines 66--98) and
  \<open>src/read_mcd_aod_and_calculate_pm25.py\<close> (lines 224--255): the lookups in the
  parsed metadata, the corner unpacking, the resolutions, the \<open>np.arange\<close> axes,
  the reversal of the \<open>y\<close> axis, \<open>np.meshgrid\<close>, the projection-name dispatch, the
  PROJ definition string, and the element-wise transform.  Arithmetic is on exact
  reals: binary rounding is not modelled.  The PROJ library is a parameter
  \<open>plib\<close>: it maps a definition string to the inverse projection, or rejects it.
\<close>

section \<open>Python values as \<open>construct_coords\<close> uses them\<close>

datatype cc_error =
    KeyError string          \<comment> \<open>\<open>d[k]\<close> on a dictionary without \<open>k\<close>\<close>
  | TypeError string         \<comment> \<open>subscript, unpacking or arithmetic on a value of the wrong type\<close>
  | ValueError string        \<comment> \<open>\<open>a,b = v\<close> with \<open>v\<close> not of length 2\<close>
  | IndexError string        \<comment> \<open>\<open>v[0]\<close> on an empty sequence\<close>
  | ZeroDivisionError string \<comment> \<open>division by zero, or \<open>np.arange\<close> with step 0\<close>
  | AttributeError string    \<comment> \<open>\<open>.lower()\<close> on a value that is not a string\<close>
  | ProjError string         \<comment> \<open>\<open>pyproj.Proj\<close> rejected the definition string\<close>
  | MetadataError md_error   \<comment> \<open>\<open>parse_hdfeos_metadata\<close> raised\<close>

type_synonym field = "real list list"

text \<open>The PROJ library: the inverse projection of a definition string, if it accepts it.\<close>

type_synonym proj_lib = "string \<Rightarrow> (real \<times> real \<Rightarrow> real \<times> real) option"

text \<open>The number a value stands for in arithmetic: \<open>int\<close>, \<open>float\<close> and \<open>bool\<close>.\<close>

fun py_num :: "pyval \<Rightarrow> real option" where
  "py_num (PInt i) = Some (of_int i)"
| "py_num (PFloat m e) =
     Some (of_int m * (if 0 \<le> e then 10 ^ nat e else inverse (10 ^ nat (- e))))"
| "py_num (PBool b) = Some (of_bool b)"
| "py_num _ = None"

text \<open>A value used as an operand of \<open>-\<close> or \<open>/\<close>; other types raise \<open>TypeError\<close>.\<close>

fun py_float :: "mdnode \<Rightarrow> cc_error + real" where
  "py_float (MVal v) = (case py_num v of Some x \<Rightarrow> Inr x | None \<Rightarrow> Inl (TypeError ''-''))"
| "py_float (MGroup d) = Inl (TypeError ''-'')"

text \<open>\<open>v[k]\<close> with a string key: a lookup in an \<open>OrderedDict\<close>, \<open>TypeError\<close> on the scalars.\<close>

fun py_getitem :: "mdnode \<Rightarrow> string \<Rightarrow> cc_error + mdnode" where
  "py_getitem (MGroup d) k = (case od_get d k of None \<Rightarrow> Inl (KeyError k) | Some v \<Rightarrow> Inr v)"
| "py_getitem (MVal v) k = Inl (TypeError k)"

text \<open>
  \<open>a,b = v\<close>: a pair of a tuple, of the characters of a string, or of the keys of
  a dictionary of length two.
\<close>

fun py_unpack2 :: "mdnode \<Rightarrow> cc_error + mdnode \<times> mdnode" where
  "py_unpack2 (MVal (PTuple [a, b])) = Inr (MVal a, MVal b)"
| "py_unpack2 (MVal (PTuple vs)) = Inl (ValueError ''unpack'')"
| "py_unpack2 (MVal (PStr [a, b])) = Inr (MVal (PStr [a]), MVal (PStr [b]))"
| "py_unpack2 (MVal (PStr s)) = Inl (ValueError ''unpack'')"
| "py_unpack2 (MGroup [(k1, v1), (k2, v2)]) = Inr (MVal (PStr k1), MVal (PStr k2))"
| "py_unpack2 (MGroup d) = Inl (ValueError ''unpack'')"
| "py_unpack2 (MVal v) = Inl (TypeError ''unpack'')"

text \<open>\<open>a / v\<close> for a number \<open>a\<close>.\<close>

definition py_div :: "real \<Rightarrow> mdnode \<Rightarrow> cc_error + real" where
  "py_div a v =
     sbind (py_float v) (\<lambda>d. if d = 0 then Inl (ZeroDivisionError ''/'') else Inr (a / d))"

text \<open>\<open>v[0]\<close>.\<close>

fun py_item0 :: "mdnode \<Rightarrow> cc_error + pyval" where
  "py_item0 (MVal (PTuple (v # vs))) = Inr v"
| "py_item0 (MVal (PTuple [])) = Inl (IndexError ''0'')"
| "py_item0 (MVal (PStr (c # s))) = Inr (PStr [c])"
| "py_item0 (MVal (PStr [])) = Inl (IndexError ''0'')"
| "py_item0 (MGroup d) = Inl (KeyError ''0'')"
| "py_item0 (MVal v) = Inl (TypeError ''0'')"

section \<open>\<open>str()\<close> of a value\<close>

definition dec_char :: "nat \<Rightarrow> char" where
  "dec_char n = char_of (48 + n)"

definition hex_char :: "nat \<Rightarrow> char" where
  "hex_char n = (if n < 10 then char_of (48 + n) else char_of (87 + n))"

fun dec_nat :: "nat \<Rightarrow> string" where
  "dec_nat n = (if n < 10 then [dec_char n] else dec_nat (n div 10) @ [dec_char (n mod 10)])"

definition dec_int :: "int \<Rightarrow> string" where
  "dec_int i = (if i < 0 then CHR ''-'' # dec_nat (nat (- i)) else dec_nat (nat i))"

text \<open>
  \<open>repr\<close> of a float \<open>m \<cdot> 10^e\<close> (\<open>m\<close> without trailing zeros), CPython's short
  representation: positional when the decimal point position \<open>dp\<close> satisfies
  \<open>-4 < dp \<le> 16\<close>, scientific with a signed two-digit exponent otherwise.  The
  digits are those of the literal, which is the shortest round-trip
  representation for literals of at most 15 significant digits.
\<close>

definition float_repr :: "int \<Rightarrow> int \<Rightarrow> string" where
  "float_repr m e =
     (if m = 0 then ''0.0'' else
      let ds = dec_nat (nat \<bar>m\<bar>); n = int (length ds); dp = n + e
      in (if m < 0 then ''-'' else []) @
         (if dp \<le> -4 \<or> 16 < dp then
            hd ds # (if n = 1 then [] else CHR ''.'' # tl ds) @ ''e'' @
            (if dp - 1 < 0 then ''-'' else ''+'') @
            (let x = dec_nat (nat \<bar>dp - 1\<bar>) in if length x < 2 then CHR ''0'' # x else x)
          else if dp \<le> 0 then ''0.'' @ replicate (nat (- dp)) CHR ''0'' @ ds
          else if n \<le> dp then ds @ replicate (nat (dp - n)) CHR ''0'' @ ''.0''
          else take (nat dp) ds @ CHR ''.'' # drop (nat dp) ds))"

text \<open>One character of \<open>repr\<close> of a string quoted by \<open>q\<close>.\<close>

definition repr_char :: "char \<Rightarrow> char \<Rightarrow> string" where
  "repr_char q c =
     (let n = (of_char c :: nat) in
      if c = q \<or> c = CHR 0x5C then [CHR 0x5C, c]
      else if c = CHR 0x09 then [CHR 0x5C, CHR ''t'']
      else if c = CHR 0x0A then [CHR 0x5C, CHR ''n'']
      else if c = CHR 0x0D then [CHR 0x5C, CHR ''r'']
      else if n < 32 \<or> (127 \<le> n \<and> n \<le> 160) \<or> n = 173
      then [CHR 0x5C, CHR ''x'', hex_char (n div 16), hex_char (n mod 16)]
      else [c])"

definition str_repr :: "string \<Rightarrow> string" where
  "str_repr s =
     (let q = (if CHR 0x27 \<in> set s \<and> CHR 0x22 \<notin> set s then CHR 0x22 else CHR 0x27)
      in q # concat (map (repr_char q) s) @ [q])"

text \<open>\<open>sep.join(xs)\<close> for a separator string.\<close>

fun join_str :: "string \<Rightarrow> string list \<Rightarrow> string" where
  "join_str sep [] = []"
| "join_str sep [x] = x"
| "join_str sep (x # y # ys) = x @ sep @ join_str sep (y # ys)"

fun py_repr :: "pyval \<Rightarrow> string" where
  "py_repr (PInt i) = dec_int i"
| "py_repr (PFloat m e) = float_repr m e"
| "py_repr (PStr s) = str_repr s"
| "py_repr (PTuple [v]) = ''('' @ py_repr v @ '',)''"
| "py_repr (PTuple vs) = ''('' @ join_str '', '' (map py_repr vs) @ '')''"
| "py_repr (PBool b) = (if b then ''True'' else ''False'')"
| "py_repr PNone = ''None''"

text \<open>\<open>str(v)\<close>, which is what \<open>'{}'.format(v)\<close> inserts.\<close>

fun py_str :: "pyval \<Rightarrow> string" where
  "py_str (PStr s) = s"
| "py_str v = py_repr v"

section \<open>NumPy\<close>

text \<open>
  \<open>np.arange(start, stop, step)\<close>: \<open>\<lceil>(stop - start) / step\<rceil>\<close> samples
  \<open>start + k \<cdot> step\<close> (none when that is negative); step \<open>0\<close> raises
  \<open>ZeroDivisionError\<close>.
\<close>

definition np_arange :: "real \<Rightarrow> real \<Rightarrow> real \<Rightarrow> cc_error + real list" where
  "np_arange start stop step =
     (if step = 0 then Inl (ZeroDivisionError ''arange'')
      else Inr (map (\<lambda>k. start + of_nat k * step) [0..<nat \<lceil>(stop - start) / step\<rceil>]))"

text \<open>\<open>np.meshgrid(x, y)\<close>: both fields have \<open>len(y)\<close> rows of \<open>len(x)\<close> columns.\<close>

definition np_meshgrid :: "real list \<Rightarrow> real list \<Rightarrow> field \<times> field" where
  "np_meshgrid x y = (map (\<lambda>_. x) y, map (\<lambda>v. replicate (length x) v) y)"

section \<open>\<open>construct_coords\<close>\<close>

text \<open>
  Lines 74--83: the corners, the resolutions, the axes and the native field
  \<open>xx, yy\<close> of the grid whose metadata group is \<open>gridInfo\<close>.
\<close>

definition native_grid :: "mdnode \<Rightarrow> cc_error + field \<times> field" where
  "native_grid gridInfo =
     sbind (sbind (py_getitem gridInfo ''UpperLeftPointMtrs'') py_unpack2) (\<lambda>(x1, y1).
     sbind (sbind (py_getitem gridInfo ''LowerRightMtrs'') py_unpack2) (\<lambda>(x2, y2).
     sbind (py_float y1) (\<lambda>y1. sbind (py_float y2) (\<lambda>y2.
     sbind (py_getitem gridInfo ''YDim'') (\<lambda>yd. sbind (py_div (y1 - y2) yd) (\<lambda>yRes.
     sbind (py_float x1) (\<lambda>x1. sbind (py_float x2) (\<lambda>x2.
     sbind (py_getitem gridInfo ''XDim'') (\<lambda>xd. sbind (py_div (x1 - x2) xd) (\<lambda>xRes.
     sbind (np_arange x2 x1 xRes) (\<lambda>x.
     sbind (np_arange y2 y1 yRes) (\<lambda>y.
     Inr (np_meshgrid x (rev y))))))))))))))"

text \<open>Lines 85--88: \<open>'sinu'\<close> for any name containing \<open>soid\<close>, else the lower-cased name.\<close>

definition proj_name :: "mdnode \<Rightarrow> cc_error + string" where
  "proj_name p =
     (case p of
        MVal (PStr s) \<Rightarrow> Inr (if py_in ''soid'' (py_lower s) then ''sinu'' else py_lower s)
      | _ \<Rightarrow> Inl (AttributeError ''lower''))"

text \<open>Lines 91--92: the PROJ definition string.\<close>

definition proj_string :: "string \<Rightarrow> pyval \<Rightarrow> string" where
  "proj_string pp a =
     ''+proj='' @ pp @ '' +lon_0=0 +x_0=0 +y_0=0 +a='' @ py_str a @ '' +units=m +no_defs''"

definition proj_def :: "mdnode \<Rightarrow> cc_error + string" where
  "proj_def gridInfo =
     sbind (sbind (py_getitem gridInfo ''Projection'') proj_name) (\<lambda>pp.
     sbind (sbind (py_getitem gridInfo ''ProjParams'') py_item0) (\<lambda>a.
     Inr (proj_string pp a)))"

text \<open>\<open>pyproj.transform(proj, gcs, xx, yy)\<close>, point by point.\<close>

definition transform_field ::
  "(real \<times> real \<Rightarrow> real \<times> real) \<Rightarrow> field \<Rightarrow> field \<Rightarrow> field \<times> field" where
  "transform_field t xx yy =
     (map2 (map2 (\<lambda>x y. fst (t (x, y)))) xx yy, map2 (map2 (\<lambda>x y. snd (t (x, y)))) xx yy)"

text \<open>Lines 70--98, after the metadata is parsed: the grid lookup and the rest.\<close>

definition grid_coords :: "proj_lib \<Rightarrow> mdict \<Rightarrow> string \<Rightarrow> cc_error + field \<times> field" where
  "grid_coords plib metadata grid =
     sbind (py_getitem (MGroup metadata) ''GridStructure'') (\<lambda>gs.
     sbind (py_getitem gs grid) (\<lambda>gridInfo.
     sbind (native_grid gridInfo) (\<lambda>(xx, yy).
     sbind (proj_def gridInfo) (\<lambda>projStr.
     case plib projStr of
       None \<Rightarrow> Inl (ProjError projStr)
     | Some t \<Rightarrow> Inr (transform_field t xx yy)))))"

text \<open>
  \<open>construct_coords(ds, grid)\<close> with \<open>attrs\<close> the attributes of \<open>ds\<close>; \<open>None\<close> when
  the metadata parser does not return.
\<close>

definition construct_coords ::
  "proj_lib \<Rightarrow> (string \<times> string) list \<Rightarrow> string \<Rightarrow> (cc_error + field \<times> field) option" where
  "construct_coords plib attrs grid =
     (case map_of attrs ''StructMetadata.0'' of
        None \<Rightarrow> Some (Inl (KeyError ''StructMetadata.0''))
      | Some s \<Rightarrow>
          map_option (\<lambda>r. case r of Inl e \<Rightarrow> Inl (MetadataError e) | Inr md \<Rightarrow> grid_coords plib md grid)
            (parse_md s))"

section \<open>The grid descriptor\<close>

text \<open>
  The view of a grid's metadata group that the specification calls a grid
  descriptor: numeric corners (each a pair unpacked from the group) and integer
  dimensions.  It states the hypotheses of the lemmas below.
\<close>

definition corner :: "mdnode \<Rightarrow> string \<Rightarrow> cc_error + real \<times> real" where
  "corner g k =
     sbind (sbind (py_getitem g k) py_unpack2) (\<lambda>(a, b).
     sbind (py_float a) (\<lambda>x. sbind (py_float b) (\<lambda>y. Inr (x, y))))"

definition grid_desc :: "mdnode \<Rightarrow> real \<times> real \<Rightarrow> real \<times> real \<Rightarrow> int \<Rightarrow> int \<Rightarrow> bool" where
  "grid_desc g ul lr X Y \<longleftrightarrow>
     corner g ''UpperLeftPointMtrs'' = Inr ul \<and> corner g ''LowerRightMtrs'' = Inr lr \<and>
     py_getitem g ''XDim'' = Inr (MVal (PInt X)) \<and> py_getitem g ''YDim'' = Inr (MVal (PInt Y))"

text \<open>
  A two-by-two grid with the projection of the MODIS sinusoidal tiles (sphere
  radius 6371007.181 m), used to instantiate the lemmas.
\<close>

definition demo_grid :: mdnode where
  "demo_grid = MGroup
     [(''UpperLeftPointMtrs'', MVal (PTuple [PInt (-4), PInt 4])),
      (''LowerRightMtrs'', MVal (PTuple [PInt 4, PInt (-4)])),
      (''XDim'', MVal (PInt 2)), (''YDim'', MVal (PInt 2)),
      (''Projection'', MVal (PStr ''GCTP_SNSOID'')),
      (''ProjParams'', MVal (PTuple [PFloat 6371007181 (-3), PFloat 0 0]))]"

section \<open>The axes and the native field\<close>

lemma np_arange_exact:
  assumes "0 < n" "a \<noteq> b"
  shows "np_arange b a ((a - b) / of_int n) = Inr (map (\<lambda>k. b + of_nat k * ((a - b) / of_int n)) [0..<nat n])"
  using assms by (simp add: np_arange_def)

lemma rev_arange:
  fixes a b :: real
  assumes "0 < n"
  shows "rev (map (\<lambda>k. b + real k * (a - b) / of_int n) [0..<nat n]) =
         map (\<lambda>i. a - (1 + real i) * (a - b) / of_int n) [0..<nat n]"
proof (rule nth_equalityI)
  fix i assume "i < length (rev (map (\<lambda>k. b + real k * (a - b) / of_int n) [0..<nat n]))"
  then have i: "i < nat n" by simp
  then have "real (nat n - Suc i) = of_int n - 1 - of_nat i"
    using assms by (simp add: of_nat_diff)
  moreover have "(of_int n :: real) \<noteq> 0" using assms by simp
  ultimately have "b + real (nat n - Suc i) * (a - b) / of_int n = a - (1 + real i) * (a - b) / of_int n"
    by (simp add: field_simps)
  with i show "rev (map (\<lambda>k. b + real k * (a - b) / of_int n) [0..<nat n]) ! i =
         map (\<lambda>i. a - (1 + real i) * (a - b) / of_int n) [0..<nat n] ! i"
    by (simp add: rev_nth)
qed simp

lemma corner_Inr:
  assumes "corner g k = Inr (x, y)"
  obtains n a b where "py_getitem g k = Inr n" "py_unpack2 n = Inr (a, b)"
    "py_float a = Inr x" "py_float b = Inr y"
  using assms by (auto simp: corner_def sbind_eq_Inr)

lemma rev_arange_nth:
  fixes a b :: real
  assumes "0 < n" "i < nat n"
  shows "a - (1 + real i) * (a - b) / of_int n = b + real (nat n - 1 - i) * ((a - b) / of_int n)"
proof -
  have "real (nat n - 1 - i) = of_int n - 1 - of_nat i" using assms by (simp add: of_nat_diff)
  moreover have "(of_int n :: real) \<noteq> 0" using assms by simp
  ultimately show ?thesis by (simp add: field_simps)
qed

lemma native_grid_closed:
  assumes desc: "grid_desc g (x1, y1) (x2, y2) X Y"
    and pos: "0 < X" "0 < Y" and ne: "x1 \<noteq> x2" "y1 \<noteq> y2"
  shows "native_grid g =
           Inr (np_meshgrid (map (\<lambda>j. x2 + real j * (x1 - x2) / of_int X) [0..<nat X])
                            (map (\<lambda>i. y1 - (1 + real i) * (y1 - y2) / of_int Y) [0..<nat Y]))"
proof -
  from desc have ul: "corner g ''UpperLeftPointMtrs'' = Inr (x1, y1)"
    and lr: "corner g ''LowerRightMtrs'' = Inr (x2, y2)"
    and dims: "py_getitem g ''XDim'' = Inr (MVal (PInt X))" "py_getitem g ''YDim'' = Inr (MVal (PInt Y))"
    by (simp_all add: grid_desc_def)
  obtain n1 a1 b1 where u: "py_getitem g ''UpperLeftPointMtrs'' = Inr n1" "py_unpack2 n1 = Inr (a1, b1)"
    "py_float a1 = Inr x1" "py_float b1 = Inr y1" using ul by (rule corner_Inr)
  obtain n2 a2 b2 where l: "py_getitem g ''LowerRightMtrs'' = Inr n2" "py_unpack2 n2 = Inr (a2, b2)"
    "py_float a2 = Inr x2" "py_float b2 = Inr y2" using lr by (rule corner_Inr)
  show ?thesis
    using u l dims pos ne by (simp add: native_grid_def py_div_def np_arange_exact rev_arange)
qed

lemma np_meshgrid_nth:
  assumes "np_meshgrid x y = (xx, yy)"
  shows "length xx = length y \<and> length yy = length y \<and>
    (\<forall>i < length y. length (xx ! i) = length x \<and> length (yy ! i) = length x \<and>
       (\<forall>j < length x. xx ! i ! j = x ! j \<and> yy ! i ! j = y ! i))"
  using assms by (auto simp: np_meshgrid_def)

lemma native_grid_nth:
  assumes "grid_desc g (x1, y1) (x2, y2) X Y" "0 < X" "0 < Y" "x1 \<noteq> x2" "y1 \<noteq> y2"
    and "native_grid g = Inr (xx, yy)" "i < nat Y" "j < nat X"
  shows "xx ! i ! j = x2 + real j * (x1 - x2) / of_int X \<and>
         yy ! i ! j = y1 - (1 + real i) * (y1 - y2) / of_int Y"
  using np_meshgrid_nth [of _ _ xx yy] native_grid_closed [OF assms(1-5)] assms(6-8) by auto

lemma transform_meshgrid:
  "transform_field t (fst (np_meshgrid x y)) (snd (np_meshgrid x y)) =
     (map (\<lambda>v. map (\<lambda>u. fst (t (u, v))) x) y, map (\<lambda>v. map (\<lambda>u. snd (t (u, v))) x) y)"
  by (simp add: transform_field_def np_meshgrid_def zip_map1 zip_map2 zip_same_conv_map
      zip_replicate2 comp_def)

lemma demo_grid_desc: "grid_desc demo_grid (-4, 4) (4, -4) 2 2"
  by (simp add: grid_desc_def corner_def demo_grid_def od_get_def)

lemma demo_native_grid: "native_grid demo_grid = Inr ([[4, 0], [4, 0]], [[0, 0], [-4, -4]])"
  by (simp add: native_grid_closed [OF demo_grid_desc] np_meshgrid_def upt_rec)

lemma demo_proj_def:
  "proj_def demo_grid = Inr ''+proj=sinu +lon_0=0 +x_0=0 +y_0=0 +a=6371007.181 +units=m +no_defs''"
  by (simp add: proj_def_def proj_name_def proj_string_def demo_grid_def od_get_def
      py_lower_def py_lower_char_def float_repr_def dec_char_def char_of_def bit_0)

section \<open>Properties of \<open>construct_coords\<close>\<close>

text \<open>
  C7: on a grid with numeric corners that differ in both coordinates and positive
  integer dimensions \<open>XDim\<close>, \<open>YDim\<close>, whose projection PROJ accepts,
  \<open>construct_coords\<close> returns the transform of the meshgrid of the two
  \<open>np.arange\<close> axes, with \<open>y\<close> reversed: whatever number of samples \<open>nx\<close>, \<open>ny\<close>
  the axes have, both fields have \<open>ny\<close> rows of \<open>nx\<close> columns and entry \<open>(i, j)\<close>
  is the transform of the cell corner \<open>(x2 + j \<cdot> xRes, y2 + (ny - 1 - i) \<cdot> yRes)\<close>,
  with \<open>xRes = (x1 - x2) / XDim\<close> and \<open>yRes = (y1 - y2) / YDim\<close>.
\<close>

theorem grid_coords_field:
  assumes gs: "py_getitem (MGroup md) ''GridStructure'' = Inr gs" and g: "py_getitem gs grid = Inr g"
    and desc: "grid_desc g (x1, y1) (x2, y2) X Y" and pos: "0 < X" "0 < Y" and ne: "x1 \<noteq> x2" "y1 \<noteq> y2"
    and p: "proj_def g = Inr p" and t: "plib p = Some t"
  shows "\<exists>xs ys lon lat.
     np_arange x2 x1 ((x1 - x2) / of_int X) = Inr xs \<and> np_arange y2 y1 ((y1 - y2) / of_int Y) = Inr ys \<and>
     grid_coords plib md grid = Inr (lon, lat) \<and> length lon = length ys \<and> length lat = length ys \<and>
     (\<forall>i < length ys. length (lon ! i) = length xs \<and> length (lat ! i) = length xs \<and>
        (\<forall>j < length xs. (lon ! i ! j, lat ! i ! j) =
           t (x2 + real j * ((x1 - x2) / of_int X), y2 + real (length ys - 1 - i) * ((y1 - y2) / of_int Y))))"
proof -
  let ?xs = "map (\<lambda>k. x2 + of_nat k * ((x1 - x2) / of_int X)) [0..<nat X]"
  let ?ys = "map (\<lambda>k. y2 + of_nat k * ((y1 - y2) / of_int Y)) [0..<nat Y]"
  let ?x = "map (\<lambda>j. x2 + real j * (x1 - x2) / of_int X) [0..<nat X]"
  let ?y = "map (\<lambda>i. y1 - (1 + real i) * (y1 - y2) / of_int Y) [0..<nat Y]"
  have ax: "np_arange x2 x1 ((x1 - x2) / of_int X) = Inr ?xs" using pos ne by (intro np_arange_exact) simp_all
  have ay: "np_arange y2 y1 ((y1 - y2) / of_int Y) = Inr ?ys" using pos ne by (intro np_arange_exact) simp_all
  have gc: "grid_coords plib md grid =
          Inr (transform_field t (fst (np_meshgrid ?x ?y)) (snd (np_meshgrid ?x ?y)))"
    using gs g p t native_grid_closed [OF desc pos ne] by (simp add: grid_coords_def case_prod_unfold)
  have "\<forall>i < nat Y. \<forall>j < nat X. ?y ! i = y2 + real (nat Y - 1 - i) * ((y1 - y2) / of_int Y)"
    using pos(2) by (simp add: rev_arange_nth)
  with ax ay gc show ?thesis by (auto simp: transform_meshgrid)
qed

theorem grid_coords_field_witness:
  "\<exists>xs ys lon lat.
     np_arange 4 (-4) ((- 4 - 4) / of_int 2) = Inr xs \<and> np_arange (-4) 4 ((4 - - 4) / of_int 2) = Inr ys \<and>
     grid_coords (\<lambda>_. Some id) [(''GridStructure'', MGroup [(''GRID_1'', demo_grid)])] ''GRID_1''
       = Inr (lon, lat) \<and> length lon = length ys \<and> length lat = length ys \<and>
     (\<forall>i < length ys. length (lon ! i) = length xs \<and> length (lat ! i) = length xs \<and>
        (\<forall>j < length xs. (lon ! i ! j, lat ! i ! j) =
           id (4 + real j * ((- 4 - 4) / of_int 2), - 4 + real (length ys - 1 - i) * ((4 - - 4) / of_int 2))))"
  by (rule grid_coords_field [where gs = "MGroup [(''GRID_1'', demo_grid)]",
        OF _ _ demo_grid_desc _ _ _ _ demo_proj_def]) (simp_all add: od_get_def)

text \<open>
  C8: when the upper-left corner lies north of the lower-right one, the native
  \<open>y\<close> field decreases down each column: row 0 is the northernmost.
\<close>

theorem native_grid_north_up:
  assumes "grid_desc g (x1, y1) (x2, y2) X Y" "0 < X" "0 < Y" "x1 \<noteq> x2" "y2 < y1"
    and "native_grid g = Inr (xx, yy)" "i < i'" "i' < nat Y" "j < nat X"
  shows "yy ! i' ! j < yy ! i ! j"
proof -
  have "(1 + real i) * (y1 - y2) / of_int Y < (1 + real i') * (y1 - y2) / of_int Y"
    using assms(3,5,7) by (simp add: divide_strict_right_mono)
  with native_grid_nth [OF assms(1-4) _ assms(6)] assms(5,7-9) show ?thesis by simp
qed

theorem native_grid_north_up_witness:
  "native_grid demo_grid = Inr ([[4, 0], [4, 0]], [[0, 0], [-4, -4]]) \<and>
   ([[0, 0], [-4, -4]] :: real list list) ! 1 ! 0 < [[0, 0], [-4, -4]] ! 0 ! 0"
  using native_grid_north_up [OF demo_grid_desc _ _ _ _ demo_native_grid, of 0 1 0] demo_native_grid by simp

text \<open>
  C9: when the upper-left corner lies west of the lower-right one, the native
  \<open>x\<close> field starts at the lower-right (eastern) corner and decreases along each
  row, so column 0 of the coordinates is the eastern edge while column 0 of the
  data is the western one.
\<close>

theorem native_grid_east_first:
  assumes "grid_desc g (x1, y1) (x2, y2) X Y" "0 < X" "0 < Y" "x1 < x2" "y1 \<noteq> y2"
    and "native_grid g = Inr (xx, yy)" "i < nat Y" "j < j'" "j' < nat X"
  shows "xx ! i ! 0 = x2 \<and> xx ! i ! j' < xx ! i ! j"
proof -
  have "real j' * (x1 - x2) / of_int X < real j * (x1 - x2) / of_int X"
    using assms(2,4,8) by (simp add: divide_strict_right_mono mult_strict_right_mono_neg)
  with native_grid_nth [OF assms(1-3) _ assms(5,6)] assms(4,7-9) show ?thesis by auto
qed

theorem native_grid_east_first_witness:
  "native_grid demo_grid = Inr ([[4, 0], [4, 0]], [[0, 0], [-4, -4]]) \<and>
   ([[4, 0], [4, 0]] :: real list list) ! 0 ! 0 = 4 \<and>
   ([[4, 0], [4, 0]] :: real list list) ! 0 ! 1 < [[4, 0], [4, 0]] ! 0 ! 0"
  using native_grid_east_first [OF demo_grid_desc _ _ _ _ demo_native_grid, of 0 0 1] demo_native_grid by simp

text \<open>
  C10: corners with equal \<open>x\<close> give \<open>xRes = 0\<close>, and \<open>np.arange\<close> raises
  \<open>ZeroDivisionError\<close> whatever the dimensions.
\<close>

theorem native_grid_degenerate:
  assumes "grid_desc g (x, y1) (x, y2) X Y" "X \<noteq> 0" "Y \<noteq> 0"
  shows "native_grid g = Inl (ZeroDivisionError ''arange'')"
proof -
  from assms(1) obtain n1 a1 b1 n2 a2 b2 where
    "py_getitem g ''UpperLeftPointMtrs'' = Inr n1" "py_unpack2 n1 = Inr (a1, b1)"
    "py_float a1 = Inr x" "py_float b1 = Inr y1"
    "py_getitem g ''LowerRightMtrs'' = Inr n2" "py_unpack2 n2 = Inr (a2, b2)"
    "py_float a2 = Inr x" "py_float b2 = Inr y2"
    "py_getitem g ''XDim'' = Inr (MVal (PInt X))" "py_getitem g ''YDim'' = Inr (MVal (PInt Y))"
    unfolding grid_desc_def by (auto elim!: corner_Inr)
  with assms(2,3) show ?thesis by (simp add: native_grid_def py_div_def np_arange_def)
qed

theorem native_grid_degenerate_witness:
  "native_grid (MGroup [(''UpperLeftPointMtrs'', MVal (PTuple [PInt 3, PInt 1])),
      (''LowerRightMtrs'', MVal (PTuple [PInt 3, PInt 0])),
      (''XDim'', MVal (PInt 2)), (''YDim'', MVal (PInt 2))]) = Inl (ZeroDivisionError ''arange'')"
  by (rule native_grid_degenerate [of _ 3 1 0 2 2]) (simp_all add: grid_desc_def corner_def od_get_def)

text \<open>
  C11: a grid name absent from the \<open>GridStructure\<close> group raises \<open>KeyError\<close>
  with that name.
\<close>

theorem grid_coords_missing_grid:
  assumes "py_getitem (MGroup md) ''GridStructure'' = Inr (MGroup gs)" "grid \<notin> set (map fst gs)"
  shows "grid_coords plib md grid = Inl (KeyError grid)"
proof -
  have "map_of gs grid = None" using assms(2) by (simp add: map_of_eq_None_iff)
  with assms(1) show ?thesis by (simp add: grid_coords_def od_get_def)
qed

theorem grid_coords_missing_grid_witness:
  "grid_coords (\<lambda>_. None) [(''GridStructure'', MGroup [(''GRID_1'', demo_grid)])] ''GRID_2'' = Inl (KeyError ''GRID_2'')"
  by (rule grid_coords_missing_grid) (auto simp: od_get_def)

text \<open>
  C12: a projection name containing \<open>soid\<close> in any letter case gives the PROJ
  definition of the sinusoidal projection on the sphere whose radius is the first
  projection parameter, printed as Python prints the float.
\<close>

theorem proj_def_sinusoidal:
  assumes "py_getitem g ''Projection'' = Inr (MVal (PStr s))" "py_in ''soid'' (py_lower s)"
    and "py_getitem g ''ProjParams'' = Inr (MVal (PTuple (PFloat m e # ps)))"
  shows "proj_def g =
           Inr (''+proj=sinu +lon_0=0 +x_0=0 +y_0=0 +a='' @ float_repr m e @ '' +units=m +no_defs'')"
  using assms by (simp add: proj_def_def proj_name_def proj_string_def)

theorem proj_def_sinusoidal_witness:
  "proj_def demo_grid = Inr ''+proj=sinu +lon_0=0 +x_0=0 +y_0=0 +a=6371007.181 +units=m +no_defs''"
  by (subst proj_def_sinusoidal [of _ "''GCTP_SNSOID''" 6371007181 "-3" "[PFloat 0 0]"])
     (simp_all add: demo_grid_def od_get_def py_lower_def py_lower_char_def float_repr_def
       dec_char_def char_of_def bit_0)

end
