(* ===== verification/Aqi.thy ===== *)
theory Aqi
  imports Grid
begin

text \<open>
  The array computations of the two scripts, on NumPy arrays of shape
  \<open>(orbits, rows, columns)\<close> modelled as nested lists: the statistics over the
  valid range and the PM2.5 field of \<open>src/read_mcd_aod_and_calculate_pm25.py\<close>
  (lines 128--162), its AQI classification by seven in-place masked assignments
  and the masked mean over the orbits (lines 169--180), and the masked AOD mean
  of \<open>src/read_and_map_mcd_aerosol.py\<close> (lines 123--130).  Raw values are the
  file's integers; scaled values are exact reals.  A masked entry of a
  \<open>numpy.ma\<close> array is \<open>None\<close>.
\<close>

section \<open>Arrays\<close>

type_synonym 'a array3 = "'a list list list"

definition map3 :: "('a \<Rightarrow> 'b) \<Rightarrow> 'a array3 \<Rightarrow> 'b array3" where
  "map3 f a = map (map (map f)) a"

text \<open>The arrays NumPy builds: every orbit has the shape of the first.\<close>

definition rect3 :: "'a array3 \<Rightarrow> bool" where
  "rect3 a \<longleftrightarrow>
     (case a of [] \<Rightarrow> True
      | a0 # _ \<Rightarrow> list_all (\<lambda>orb. length orb = length a0 \<and>
                      (\<forall>r < length a0. length (orb ! r) = length (a0 ! r))) a)"

text \<open>A float of the AQI array: a number or NaN (every comparison with NaN is false).\<close>

datatype f64 = Fin real | NaN

section \<open>Statistics over the valid range (lines 131--147)\<close>

text \<open>
  \<open>valid_data=data.ravel()\<close>, then the two list comprehensions keeping the
  values \<open>\<ge> min_range\<close> and \<open>\<le> max_range\<close>.
\<close>

definition valid_values :: "int \<Rightarrow> int \<Rightarrow> int array3 \<Rightarrow> int list" where
  "valid_values min_range max_range data =
     filter (\<lambda>x. x \<le> max_range) (filter (\<lambda>x. min_range \<le> x) (concat (concat data)))"

text \<open>\<open>sum(xs)/len(xs)\<close>: \<open>ZeroDivisionError\<close> on an empty list.\<close>

definition py_mean :: "real list \<Rightarrow> cc_error + real" where
  "py_mean xs =
     (if length xs = 0 then Inl (ZeroDivisionError ''/'') else Inr (sum_list xs / of_nat (length xs)))"

text \<open>\<open>np.std(xs)\<close>, the population standard deviation.\<close>

definition np_std :: "real list \<Rightarrow> real" where
  "np_std xs =
     (let m = sum_list xs / of_nat (length xs)
      in sqrt (sum_list (map (\<lambda>x. (x - m)\<^sup>2) xs) / of_nat (length xs)))"

record stats =
  st_min :: real  \<comment> \<open>\<open>min_range*scale_factor\<close>\<close>
  st_max :: real  \<comment> \<open>\<open>max_range*scale_factor\<close>\<close>
  st_avg :: real  \<comment> \<open>\<open>average\<close>\<close>
  st_std :: real  \<comment> \<open>\<open>stdev\<close>\<close>

text \<open>
  Lines 131--147 with \<open>rng = sds.getrange()\<close> and \<open>sf\<close> the scale factor: the
  values the script prints.
\<close>

definition file_stats :: "real \<Rightarrow> int \<times> int \<Rightarrow> int array3 \<Rightarrow> cc_error + stats" where
  "file_stats sf rng data =
     (let min_range = min (fst rng) (snd rng); max_range = max (fst rng) (snd rng);
          valid_data = map (\<lambda>x. of_int x * sf) (valid_values min_range max_range data)
      in sbind (py_mean valid_data) (\<lambda>average.
           Inr \<lparr>st_min = of_int min_range * sf, st_max = of_int max_range * sf,
                st_avg = average, st_std = np_std valid_data\<rparr>))"

section \<open>PM2.5 and its AQI category (lines 161--180)\<close>

text \<open>\<open>pm25=float(slope)*(data*scale_factor)+float(intercept)\<close>, on all the data.\<close>

definition pm25_field :: "real \<Rightarrow> real \<Rightarrow> real \<Rightarrow> int array3 \<Rightarrow> real array3" where
  "pm25_field slope intercept sf data = map3 (\<lambda>x. slope * (of_int x * sf) + intercept) data"

text \<open>\<open>data[mask] = v\<close> where the mask is \<open>p\<close> of the entry.\<close>

definition mask_elem :: "(real \<Rightarrow> bool) \<Rightarrow> f64 \<Rightarrow> f64 \<Rightarrow> f64" where
  "mask_elem p v e = (case e of Fin x \<Rightarrow> if p x then v else e | NaN \<Rightarrow> NaN)"

definition mask_assign :: "(real \<Rightarrow> bool) \<Rightarrow> f64 \<Rightarrow> f64 array3 \<Rightarrow> f64 array3" where
  "mask_assign p v a = map3 (mask_elem p v) a"

text \<open>Lines 170--176, in the order of the code, each acting on the previous result.\<close>

definition aqi_masks :: "f64 array3 \<Rightarrow> f64 array3" where
  "aqi_masks d0 =
     (let d1 = mask_assign (\<lambda>x. 0 \<le> x \<and> x \<le> 12) (Fin 0) d0;
          d2 = mask_assign (\<lambda>x. 12 < x \<and> x \<le> 35.4) (Fin 1) d1;
          d3 = mask_assign (\<lambda>x. 35.4 < x \<and> x \<le> 55.4) (Fin 2) d2;
          d4 = mask_assign (\<lambda>x. 55.4 < x \<and> x \<le> 150.4) (Fin 3) d3;
          d5 = mask_assign (\<lambda>x. 150.4 < x \<and> x \<le> 250.4) (Fin 4) d4;
          d6 = mask_assign (\<lambda>x. 250.4 < x) (Fin 5) d5
      in mask_assign (\<lambda>x. x < 0) NaN d6)"

text \<open>The AQI category of one PM2.5 value, as the table of the U.S. EPA states it.\<close>

definition aqi_category :: "real \<Rightarrow> f64" where
  "aqi_category x =
     (if x < 0 then NaN else if x \<le> 12 then Fin 0 else if x \<le> 35.4 then Fin 1
      else if x \<le> 55.4 then Fin 2 else if x \<le> 150.4 then Fin 3
      else if x \<le> 250.4 then Fin 4 else Fin 5)"

text \<open>\<open>np.ma.masked_array(data, np.isnan(data))\<close>.\<close>

definition mask_nan :: "f64 array3 \<Rightarrow> real option array3" where
  "mask_nan a = map3 (\<lambda>e. case e of Fin x \<Rightarrow> Some x | NaN \<Rightarrow> None) a"

text \<open>The mean of the unmasked entries; masked when all are.\<close>

definition ma_mean :: "real option list \<Rightarrow> real option" where
  "ma_mean vs = (let xs = [x. Some x \<leftarrow> vs] in
     if xs = [] then None else Some (sum_list xs / of_nat (length xs)))"

text \<open>\<open>np.mean(a, axis=0)\<close> of a masked array, over the shape of the first orbit.\<close>

definition np_ma_mean0 :: "real option array3 \<Rightarrow> real option list list" where
  "np_ma_mean0 a =
     (case a of [] \<Rightarrow> []
      | a0 # _ \<Rightarrow> map (\<lambda>r. map (\<lambda>c. ma_mean (map (\<lambda>orb. orb ! r ! c) a)) [0..<length (a0 ! r)])
                    [0..<length a0])"

text \<open>Lines 169--180: the mean AQI category of each cell over the orbits.\<close>

definition aqi_field :: "real array3 \<Rightarrow> real option list list" where
  "aqi_field pm25 = np_ma_mean0 (mask_nan (aqi_masks (map3 Fin pm25)))"

section \<open>The AOD field of the first script (lines 123--130)\<close>

text \<open>
  \<open>datamsk=ma.masked_where(data < 0, data)\<close>, \<open>sdsgrid=np.mean(datamsk,axis=0)\<close>,
  \<open>sdsgrid=sdsgrid*scale_factor\<close>.
\<close>

definition aod_field :: "real \<Rightarrow> int array3 \<Rightarrow> real option list list" where
  "aod_field sf data =
     map (map (map_option (\<lambda>v. v * sf)))
       (np_ma_mean0 (map3 (\<lambda>x. if x < 0 then None else Some (of_int x)) data))"

section \<open>Lemmas on arrays and masked means\<close>

lemma map3_map3 [simp]: "map3 g (map3 f a) = map3 (\<lambda>x. g (f x)) a"
  by (simp add: map3_def)

lemma set_map3: "set (concat (concat (map3 f a))) = f ` set (concat (concat a))"
  by (auto simp: map3_def)

lemma rect3_map3 [simp]: "rect3 (map3 f a) = rect3 a"
  by (cases a) (auto simp: rect3_def map3_def list_all_iff)

lemma set_concat_map_map: "set (concat (map (map f) xss)) = f ` set (concat xss)"
  by auto

lemma set_somes: "x \<in> set [y. Some y \<leftarrow> vs] \<longleftrightarrow> Some x \<in> set vs"
  by (induction vs) (auto split: option.split)

lemma ma_mean_bounds:
  assumes "ma_mean vs = Some v" "\<And>x. Some x \<in> set vs \<Longrightarrow> a \<le> x \<and> x \<le> b"
  shows "a \<le> v \<and> v \<le> b"
  using assms mean_bounds [of "[y. Some y \<leftarrow> vs]" a b]
  by (auto simp: ma_mean_def Let_def set_somes split: if_splits)

lemma ma_mean_nonneg:
  assumes "ma_mean vs = Some v" "\<And>x. Some x \<in> set vs \<Longrightarrow> 0 \<le> x"
  shows "0 \<le> v"
proof -
  let ?xs = "[y. Some y \<leftarrow> vs]"
  from assms(1) have v: "v = sum_list ?xs / of_nat (length ?xs)"
    by (simp add: ma_mean_def Let_def split: if_splits)
  have "0 \<le> sum_list ?xs"
  proof (rule sum_list_nonneg)
    fix x assume "x \<in> set ?xs"
    then have "Some x \<in> set vs" by (simp only: set_somes)
    then show "0 \<le> x" by (rule assms(2))
  qed
  then show ?thesis by (simp add: v)
qed

lemma ma_mean_None: "ma_mean vs = None \<longleftrightarrow> (\<forall>e \<in> set vs. e = None)"
proof -
  have "[y. Some y \<leftarrow> vs] = [] \<longleftrightarrow> (\<forall>e \<in> set vs. e = None)"
    by (induction vs) (auto split: option.split)
  then show ?thesis by (simp add: ma_mean_def Let_def)
qed

lemma np_ma_mean0_nth:
  assumes "r < length a0" "c < length (a0 ! r)"
  shows "np_ma_mean0 (a0 # as) ! r ! c = ma_mean (map (\<lambda>orb. orb ! r ! c) (a0 # as))"
  using assms by (simp add: np_ma_mean0_def)

lemma np_ma_mean0_cells:
  assumes "rect3 a" "cell \<in> set (concat (np_ma_mean0 a))"
  shows "\<exists>col. cell = ma_mean col \<and> set col \<subseteq> set (concat (concat a))"
proof (cases a)
  case (Cons a0 as)
  with assms(2) obtain r c where rc: "r < length a0" "c < length (a0 ! r)"
    and cell: "cell = ma_mean (map (\<lambda>orb. orb ! r ! c) a)"
    by (auto simp: np_ma_mean0_def)
  have "orb ! r ! c \<in> set (concat (concat a))" if "orb \<in> set a" for orb
  proof -
    from assms(1) Cons that rc have "r < length orb" "c < length (orb ! r)"
      by (auto simp: rect3_def list_all_iff)
    then have "orb ! r \<in> set orb" "orb ! r ! c \<in> set (orb ! r)" by simp_all
    with that show ?thesis by auto
  qed
  with cell show ?thesis
    by (intro exI [of _ "map (\<lambda>orb. orb ! r ! c) a"]) (auto simp del: set_concat)
qed (use assms in \<open>simp add: np_ma_mean0_def\<close>)

lemma column_map3:
  assumes "\<forall>orb \<in> set a. r < length orb \<and> c < length (orb ! r)"
  shows "map (\<lambda>orb. orb ! r ! c) (map3 f a) = map (\<lambda>orb. f (orb ! r ! c)) a"
  using assms by (simp add: map3_def)

lemma rect3_column:
  assumes "rect3 (a0 # as)" "r < length a0" "c < length (a0 ! r)"
  shows "\<forall>orb \<in> set (a0 # as). r < length orb \<and> c < length (orb ! r)"
  using assms by (auto simp: rect3_def list_all_iff)

lemma valid_values_bounds: "x \<in> set (valid_values mn mx data) \<Longrightarrow> mn \<le> x \<and> x \<le> mx"
  by (simp add: valid_values_def)

section \<open>The AQI classification\<close>

lemma mask_chain_category:
  "(\<lambda>x. mask_elem (\<lambda>x. x < 0) NaN (mask_elem (\<lambda>x. 250.4 < x) (Fin 5)
     (mask_elem (\<lambda>x. 150.4 < x \<and> x \<le> 250.4) (Fin 4) (mask_elem (\<lambda>x. 55.4 < x \<and> x \<le> 150.4) (Fin 3)
     (mask_elem (\<lambda>x. 35.4 < x \<and> x \<le> 55.4) (Fin 2) (mask_elem (\<lambda>x. 12 < x \<and> x \<le> 35.4) (Fin 1)
     (mask_elem (\<lambda>x. 0 \<le> x \<and> x \<le> 12) (Fin 0) (Fin x))))))))
   = aqi_category"
  by (auto simp: fun_eq_iff mask_elem_def aqi_category_def)

text \<open>
  C13: the seven in-place masked assignments of lines 170--176, applied in the
  code's order to the PM2.5 array, compute the pure EPA classification of each
  value: an assignment never re-classifies a value an earlier one has set,
  because every category lies in \<open>[0, 12]\<close> and the later masks test
  \<open>> 12\<close>, \<open>> 250.4\<close> or \<open>< 0\<close>.
\<close>

theorem aqi_masks_map3: "aqi_masks (map3 Fin pm) = map3 aqi_category pm"
  unfolding aqi_masks_def mask_assign_def Let_def map3_map3 mask_chain_category ..

lemma aqi_field_map3:
  "aqi_field pm = np_ma_mean0 (map3 (\<lambda>x. case aqi_category x of Fin y \<Rightarrow> Some y | NaN \<Rightarrow> None) pm)"
  unfolding aqi_field_def aqi_masks_def mask_assign_def Let_def map3_map3 mask_chain_category
  by (simp add: mask_nan_def)

text \<open>
  C14: every unmasked cell of the mean AQI field lies between 0 and 5.
\<close>

theorem aqi_field_bounds:
  assumes "rect3 pm" "Some v \<in> set (concat (aqi_field pm))"
  shows "0 \<le> v \<and> v \<le> 5"
proof -
  let ?f = "\<lambda>x. case aqi_category x of Fin y \<Rightarrow> Some y | NaN \<Rightarrow> None"
  obtain col where col: "Some v = ma_mean col" "set col \<subseteq> set (concat (concat (map3 ?f pm)))"
    using np_ma_mean0_cells [of "map3 ?f pm" "Some v"] assms by (auto simp: aqi_field_map3)
  have cat: "?f x = Some y \<Longrightarrow> 0 \<le> y \<and> y \<le> 5" for x y
    by (auto simp: aqi_category_def split: if_splits)
  have "0 \<le> y \<and> y \<le> 5" if "Some y \<in> set col" for y
  proof -
    from that col(2) obtain x where "?f x = Some y" unfolding set_map3 by auto
    then show ?thesis by (rule cat)
  qed
  then show ?thesis by (rule ma_mean_bounds [OF col(1) [symmetric]])
qed

theorem aqi_field_bounds_witness:
  "rect3 ([[[5, -1]], [[40, 300]]] :: real array3) \<and> aqi_field [[[5, -1]], [[40, 300]]] = [[Some 1, Some 5]] \<and>
   0 \<le> (1 :: real) \<and> (1 :: real) \<le> 5"
proof -
  have r: "rect3 ([[[5, -1]], [[40, 300]]] :: real array3)" by (simp add: rect3_def)
  have a: "aqi_field [[[5, -1]], [[40, 300]]] = [[Some 1, Some 5]]"
    by (simp add: aqi_field_map3 np_ma_mean0_def map3_def aqi_category_def ma_mean_def upt_rec)
  show ?thesis using aqi_field_bounds [OF r, of 1] r a by simp
qed

text \<open>
  C15: a cell of the mean AQI field is masked exactly when the PM2.5 value of
  every orbit at that cell is negative.
\<close>

theorem aqi_field_masked:
  assumes "rect3 (p0 # ps)" "r < length p0" "c < length (p0 ! r)"
  shows "aqi_field (p0 # ps) ! r ! c = None \<longleftrightarrow> (\<forall>orb \<in> set (p0 # ps). orb ! r ! c < 0)"
proof -
  let ?f = "\<lambda>x. case aqi_category x of Fin y \<Rightarrow> Some y | NaN \<Rightarrow> None"
  have m: "map3 ?f (p0 # ps) = map (map ?f) p0 # map3 ?f ps" by (simp add: map3_def)
  have "aqi_field (p0 # ps) ! r ! c = np_ma_mean0 (map (map ?f) p0 # map3 ?f ps) ! r ! c"
    by (simp only: aqi_field_map3 m)
  also have "\<dots> = ma_mean (map (\<lambda>orb. orb ! r ! c) (map (map ?f) p0 # map3 ?f ps))"
    by (rule np_ma_mean0_nth) (use assms(2,3) in simp_all)
  also have "\<dots> = ma_mean (map (\<lambda>orb. ?f (orb ! r ! c)) (p0 # ps))"
    by (simp only: m [symmetric] column_map3 [OF rect3_column [OF assms]])
  finally have col: "aqi_field (p0 # ps) ! r ! c = ma_mean (map (\<lambda>orb. ?f (orb ! r ! c)) (p0 # ps))" .
  have f: "?f x = None \<longleftrightarrow> x < 0" for x
    by (simp add: aqi_category_def)
  show ?thesis
    unfolding col ma_mean_None by (simp only: set_map ball_simps f)
qed

theorem aqi_field_masked_witness: "aqi_field [[[-1]], [[-3]]] ! 0 ! 0 = None"
  by (subst aqi_field_masked) (simp_all add: rect3_def)

section \<open>The statistics and the AOD field\<close>

text \<open>
  C16: with a non-negative scale factor, the printed average lies between the
  scaled ends of the valid range, whichever order \<open>getrange\<close> returns them in.
\<close>

theorem file_stats_bounds:
  assumes "0 \<le> sf" "file_stats sf rng data = Inr s"
  shows "st_min s \<le> st_avg s \<and> st_avg s \<le> st_max s"
proof -
  let ?mn = "min (fst rng) (snd rng)" and ?mx = "max (fst rng) (snd rng)"
  let ?v = "map (\<lambda>x. of_int x * sf) (valid_values ?mn ?mx data)"
  from assms(2) have ne: "?v \<noteq> []"
    and s: "s = \<lparr>st_min = of_int ?mn * sf, st_max = of_int ?mx * sf,
                  st_avg = sum_list ?v / of_nat (length ?v), st_std = np_std ?v\<rparr>"
    by (auto simp: file_stats_def py_mean_def Let_def split: if_splits)
  have "of_int ?mn * sf \<le> y \<and> y \<le> of_int ?mx * sf" if "y \<in> set ?v" for y
    using that assms(1) by (auto dest!: valid_values_bounds intro: mult_right_mono)
  from mean_bounds [OF ne this] show ?thesis by (simp add: s)
qed

theorem file_stats_bounds_witness:
  "file_stats 1 (5000, -100) [[[1, 3, -28672]]] = Inr \<lparr>st_min = -100, st_max = 5000, st_avg = 2, st_std = 1\<rparr> \<and>
   (-100 :: real) \<le> 2 \<and> (2 :: real) \<le> 5000"
proof -
  have f: "file_stats 1 (5000, -100) [[[1, 3, -28672]]] =
             Inr \<lparr>st_min = -100, st_max = 5000, st_avg = 2, st_std = 1\<rparr>"
    by (simp add: file_stats_def valid_values_def py_mean_def np_std_def power2_eq_square)
  show ?thesis using file_stats_bounds [OF _ f] f by simp
qed

text \<open>
  C17: a file none of whose values lies in the valid range (a tile of fill
  values only) makes \<open>sum(valid_data)/len(valid_data)\<close> raise
  \<open>ZeroDivisionError\<close>.
\<close>

theorem file_stats_all_invalid:
  assumes "\<forall>x \<in> set (concat (concat data)). x < min a b \<or> max a b < x"
  shows "file_stats sf (a, b) data = Inl (ZeroDivisionError ''/'')"
proof -
  have "\<forall>x \<in> set (filter (\<lambda>x. min a b \<le> x) (concat (concat data))). \<not> x \<le> max a b"
  proof
    fix x assume "x \<in> set (filter (\<lambda>x. min a b \<le> x) (concat (concat data)))"
    then have m: "x \<in> set (concat (concat data))" and le: "min a b \<le> x" by simp_all
    from assms m have "x < min a b \<or> max a b < x" by blast
    with le show "\<not> x \<le> max a b" by linarith
  qed
  then have "valid_values (min a b) (max a b) data = []"
    unfolding valid_values_def by (simp only: filter_empty_conv)
  then show ?thesis by (simp add: file_stats_def py_mean_def)
qed

theorem file_stats_all_invalid_witness:
  "file_stats (1 / 1000) (-100, 5000) [[[-28672, -28672]]] = Inl (ZeroDivisionError ''/'')"
  by (rule file_stats_all_invalid) (simp del: set_concat)

text \<open>
  C18: with a non-negative scale factor, no unmasked cell of the AOD field of
  the first script is negative: the negative fill values never enter the mean.
\<close>

theorem aod_field_nonneg:
  assumes "0 \<le> sf" "rect3 data" "Some v \<in> set (concat (aod_field sf data))"
  shows "0 \<le> v"
proof -
  let ?g = "\<lambda>x::int. if x < 0 then None else Some (of_int x :: real)"
  from assms(3) have "Some v \<in> map_option (\<lambda>v. v * sf) ` set (concat (np_ma_mean0 (map3 ?g data)))"
    unfolding aod_field_def set_concat_map_map .
  then obtain cell where v: "Some v = map_option (\<lambda>v. v * sf) cell"
    and cell: "cell \<in> set (concat (np_ma_mean0 (map3 ?g data)))"
    by (rule imageE)
  from v obtain w where w: "cell = Some w" "v = w * sf" by (cases cell) auto
  have r: "rect3 (map3 ?g data)" using assms(2) by (simp only: rect3_map3)
  obtain col where col: "cell = ma_mean col" "set col \<subseteq> set (concat (concat (map3 ?g data)))"
    using np_ma_mean0_cells [OF r cell] by blast
  have "0 \<le> y" if "Some y \<in> set col" for y
  proof -
    have "Some y \<in> ?g ` set (concat (concat data))"
      using subsetD [OF col(2) that] unfolding set_map3 .
    then obtain x where "Some y = ?g x" by (rule imageE)
    then show ?thesis by (simp split: if_splits)
  qed
  moreover have "ma_mean col = Some w" using col(1) w(1) by simp
  ultimately have "0 \<le> w" using ma_mean_nonneg by blast
  with w(2) assms(1) show ?thesis by simp
qed

theorem aod_field_nonneg_witness:
  "rect3 ([[[-1, 4]], [[2, 6]]] :: int array3) \<and> aod_field 2 [[[-1, 4]], [[2, 6]]] = [[Some 4, Some 10]] \<and> 0 \<le> (4 :: real)"
proof -
  have r: "rect3 ([[[-1, 4]], [[2, 6]]] :: int array3)" by (simp add: rect3_def)
  have a: "aod_field 2 [[[-1, 4]], [[2, 6]]] = [[Some 4, Some 10]]"
    by (simp add: aod_field_def np_ma_mean0_def map3_def ma_mean_def upt_rec)
  show ?thesis using aod_field_nonneg [OF _ r, of 2 4] r a by simp
qed

end
