(* ===== verification/Driver.thy ===== *)
theory Driver
  imports Aqi
begin

text \<open>
  The module-level code of the two scripts: opening \<open>fileList.txt\<close>, the loop
  over its lines, the \<open>input()\<close> prompts, and for each file the sequence of
  \<open>construct_coords\<close>, the statistics, the PM2.5 parameters and the map
  (\<open>src/read_mcd_aod_and_calculate_pm25.py\<close>, lines 41--45 and 108--219), or the
  AOD map (\<open>src/read_and_map_mcd_aerosol.py\<close>, lines 35--39 and 103--152).  The
  console is explicit state: the lines still to be read from standard input and
  the events the script has produced.  Files, HDF data sets and the PROJ
  library form the environment \<open>env\<close>; plotting is recorded as one event per
  shown figure.  Every uncaught exception ends the script and is an \<open>Inl\<close>;
  \<open>None\<close> is a metadata parse that does not end.
\<close>

section \<open>The environment and the console\<close>

record sds =
  sds_attrs :: "(string \<times> pyval) list"  \<comment> \<open>\<open>sds.attributes()\<close>\<close>
  sds_range :: "int \<times> int"             \<comment> \<open>\<open>sds.getrange()\<close>\<close>
  sds_data :: "int array3"              \<comment> \<open>\<open>sds.get()\<close>: orbits, rows, columns\<close>

record hdf =
  hdf_attrs :: "(string \<times> string) list"  \<comment> \<open>\<open>hdf.attributes()\<close>\<close>
  hdf_sds :: "(string \<times> sds) list"        \<comment> \<open>the data sets \<open>hdf.select\<close> finds\<close>

record env =
  list_file :: "string option"            \<comment> \<open>the text of \<open>fileList.txt\<close>, if it opens\<close>
  hdf_files :: "(string \<times> hdf) list"      \<comment> \<open>the files \<open>SD.SD\<close> opens, by name\<close>
  proj :: proj_lib

datatype event =
    Prompt string                          \<comment> \<open>\<open>input(prompt)\<close> wrote its prompt\<close>
  | PrintStats stats                       \<comment> \<open>line 149 of the PM2.5 script\<close>
  | PrintLatLon real real real real        \<comment> \<open>line 150 of the PM2.5 script\<close>
  | ShowAod string "real option list list"  \<comment> \<open>an AOD figure: title and field\<close>
  | ShowAqi string "real option list list"  \<comment> \<open>an AQI figure: title and field\<close>
  | Print string

record io =
  io_in :: "string list"
  io_out :: "event list"

datatype run_error =
    Raised cc_error        \<comment> \<open>an exception of the scripts' own code\<close>
  | EOFError               \<comment> \<open>\<open>input()\<close> at the end of standard input\<close>
  | HDF4Error string       \<comment> \<open>\<open>SD.SD\<close> or \<open>select\<close> could not find the file or data set\<close>
  | FloatOutside string    \<comment> \<open>\<open>float()\<close> of \<open>inf\<close> or \<open>nan\<close>, outside the real model\<close>

definition nl :: string where
  "nl = [CHR 0x0A]"

definition emit :: "event \<Rightarrow> io \<Rightarrow> io" where
  "emit e st = st\<lparr>io_out := io_out st @ [e]\<rparr>"

text \<open>\<open>input(prompt)\<close>: the prompt is written, one line is read without its newline.\<close>

definition py_input :: "string \<Rightarrow> io \<Rightarrow> run_error + string \<times> io" where
  "py_input prompt st =
     (case io_in st of
        [] \<Rightarrow> Inl EOFError
      | l # ls \<Rightarrow> Inr (l, st\<lparr>io_in := ls, io_out := io_out st @ [Prompt prompt]\<rparr>))"

section \<open>Python builtins on text\<close>

text \<open>Iterating over a text file: the lines with their newline, the last one possibly without.\<close>

definition py_readlines :: "string \<Rightarrow> string list" where
  "py_readlines s =
     (let ps = py_split CHR 0x0A s
      in map (\<lambda>p. p @ nl) (butlast ps) @ (if last ps = [] then [] else [last ps]))"

text \<open>\<open>str.isspace\<close> on one character of the 8-bit range, and \<open>s.strip()\<close>.\<close>

definition py_isspace :: "char \<Rightarrow> bool" where
  "py_isspace c \<longleftrightarrow> of_char c \<in> {9, 10, 11, 12, 13, 28, 29, 30, 31, 32, 133, 160 :: nat}"

definition py_strip :: "string \<Rightarrow> string" where
  "py_strip s = rev (dropWhile py_isspace (rev (dropWhile py_isspace s)))"

text \<open>\<open>s[:-4]\<close>.\<close>

definition drop_last4 :: "string \<Rightarrow> string" where
  "drop_last4 s = take (length s - 4) s"

text \<open>
  \<open>float(s)\<close> of a string: after \<open>strip()\<close>, an optional sign and a decimal
  literal whose digit groups may be separated by single underscores, with an
  optional fraction and exponent.  \<open>inf\<close>, \<open>infinity\<close> and \<open>nan\<close> are accepted by
  Python but have no real value: they are the outcome \<open>FloatOutside\<close>.
\<close>

fun digitpart :: "string \<Rightarrow> string \<Rightarrow> string \<times> string" where
  "digitpart acc [] = (acc, [])"
| "digitpart acc (c # cs) =
     (if is_digit c then digitpart (acc @ [c]) cs
      else if c = CHR ''_'' \<and> acc \<noteq> [] \<and> cs \<noteq> [] \<and> is_digit (hd cs) then digitpart acc cs
      else (acc, c # cs))"

definition dec_value :: "string \<Rightarrow> int \<Rightarrow> real" where
  "dec_value ds e =
     of_nat (digits_nat ds) * (if 0 \<le> e then 10 ^ nat e else inverse (10 ^ nat (- e)))"

definition float_exponent :: "string \<Rightarrow> int option" where
  "float_exponent r =
     (case r of
        [] \<Rightarrow> Some 0
      | c # r' \<Rightarrow>
          (if c = CHR ''e'' \<or> c = CHR ''E'' then
             (let (neg, u) = (case r' of d # u \<Rightarrow>
                                (if d = CHR ''-'' then (True, u) else if d = CHR ''+'' then (False, u)
                                 else (False, r'))
                              | [] \<Rightarrow> (False, []));
                  (ds, rest) = digitpart [] u
              in if ds = [] \<or> rest \<noteq> [] then None
                 else Some (if neg then - int (digits_nat ds) else int (digits_nat ds)))
           else None))"

definition float_decimal :: "string \<Rightarrow> real option" where
  "float_decimal s =
     (let (ip, r1) = digitpart [] s;
          (fp, r2) = (case r1 of c # r \<Rightarrow> (if c = CHR ''.'' then digitpart [] r else ([], r1))
                      | [] \<Rightarrow> ([], []))
      in if ip = [] \<and> fp = [] then None
         else map_option (\<lambda>x. dec_value (ip @ fp) (x - int (length fp))) (float_exponent r2))"

definition float_of_str :: "string \<Rightarrow> run_error + real" where
  "float_of_str s =
     (let t = py_strip s;
          (neg, u) = (case t of c # u \<Rightarrow>
                        (if c = CHR ''-'' then (True, u) else if c = CHR ''+'' then (False, u) else (False, t))
                      | [] \<Rightarrow> (False, []))
      in if py_lower u \<in> {''inf'', ''infinity'', ''nan''} then Inl (FloatOutside s)
         else case float_decimal u of
                None \<Rightarrow> Inl (Raised (ValueError s))
              | Some x \<Rightarrow> Inr (if neg then - x else x))"

text \<open>\<open>float(v)\<close> for the slope and intercept: a string typed by the user or a literal.\<close>

fun py_float_of :: "pyval \<Rightarrow> run_error + real" where
  "py_float_of (PStr s) = float_of_str s"
| "py_float_of v = (case py_num v of Some x \<Rightarrow> Inr x | None \<Rightarrow> Inl (Raised (TypeError ''float'')))"

section \<open>NumPy reductions and HDF access\<close>

text \<open>\<open>a.min()\<close> and \<open>a.max()\<close>: \<open>ValueError\<close> on an empty array.\<close>

definition np_min :: "field \<Rightarrow> run_error + real" where
  "np_min a = (case concat a of [] \<Rightarrow> Inl (Raised (ValueError ''min'')) | x # xs \<Rightarrow> Inr (fold min xs x))"

definition np_max :: "field \<Rightarrow> run_error + real" where
  "np_max a = (case concat a of [] \<Rightarrow> Inl (Raised (ValueError ''max'')) | x # xs \<Rightarrow> Inr (fold max xs x))"

definition hdf_select :: "hdf \<Rightarrow> string \<Rightarrow> run_error + sds" where
  "hdf_select h name = (case map_of (hdf_sds h) name of None \<Rightarrow> Inl (HDF4Error name) | Some d \<Rightarrow> Inr d)"

definition sds_attr :: "sds \<Rightarrow> string \<Rightarrow> run_error + pyval" where
  "sds_attr d k = (case map_of (sds_attrs d) k of None \<Rightarrow> Inl (Raised (KeyError k)) | Some v \<Rightarrow> Inr v)"

definition scale_of :: "pyval \<Rightarrow> run_error + real" where
  "scale_of v = (case py_num v of Some x \<Rightarrow> Inr x | None \<Rightarrow> Inl (Raised (TypeError ''*'')))"

definition lift_cc :: "cc_error + 'a \<Rightarrow> run_error + 'a" where
  "lift_cc r = (case r of Inl e \<Rightarrow> Inl (Raised e) | Inr x \<Rightarrow> Inr x)"

section \<open>The PM2.5 script, \<open>src/read_mcd_aod_and_calculate_pm25.py\<close>\<close>

text \<open>Lines 153--160: the slope and intercept, typed by the user or the defaults.\<close>

definition pm25_params :: "io \<Rightarrow> run_error + (pyval \<times> pyval) \<times> io" where
  "pm25_params st =
     sbind (py_input (nl @ ''Would you like to enter a slope and intercept for PM 2.5 calculation?'') st)
       (\<lambda>(user_input, st).
          if user_input = ''Y'' \<or> user_input = ''y'' then
            sbind (py_input ''Please enter a slope: '' st) (\<lambda>(slope, st).
            sbind (py_input ''Please enter an intercept: '' st) (\<lambda>(intercept, st).
            Inr ((PStr slope, PStr intercept), st)))
          else Inr ((PFloat 294 (-1), PFloat 88 (-1)), st))"

text \<open>Lines 119--209 for the file \<open>name\<close> with coordinates \<open>longitude\<close>, \<open>latitude\<close>.\<close>

definition pm25_process :: "string \<Rightarrow> hdf \<Rightarrow> field \<Rightarrow> field \<Rightarrow> io \<Rightarrow> run_error + io" where
  "pm25_process name h longitude latitude st =
     sbind (np_min latitude) (\<lambda>min_lat. sbind (np_max latitude) (\<lambda>max_lat.
     sbind (np_min longitude) (\<lambda>min_lon. sbind (np_max longitude) (\<lambda>max_lon.
     sbind (hdf_select h ''Optical_Depth_055'') (\<lambda>sds.
     sbind (sbind (sds_attr sds ''scale_factor'') scale_of) (\<lambda>scale_factor.
     sbind (lift_cc (file_stats scale_factor (sds_range sds) (sds_data sds))) (\<lambda>stats.
     let st = emit (PrintLatLon min_lat max_lat min_lon max_lon) (emit (PrintStats stats) st) in
     sbind (pm25_params st) (\<lambda>((slope, intercept), st).
     sbind (py_float_of slope) (\<lambda>slope. sbind (py_float_of intercept) (\<lambda>intercept.
     let pm25 = pm25_field slope intercept scale_factor (sds_data sds) in
     sbind (py_input (nl @ ''Would you like to create a map of this data? Please enter Y or N '' @ nl) st)
       (\<lambda>(is_map, st).
          if is_map = ''Y'' \<or> is_map = ''y'' then
            Inr (emit (ShowAqi (drop_last4 name @ nl @ '' PM 2.5'') (aqi_field pm25)) st)
          else Inr st)))))))))))"

text \<open>Lines 109--209: one iteration of the file loop, for the line \<open>line\<close> of the list.\<close>

definition pm25_file :: "env \<Rightarrow> string \<Rightarrow> io \<Rightarrow> (run_error + io) option" where
  "pm25_file e line st =
     (let name = py_strip line in
      case py_input (nl @ ''Would you like to process'' @ nl @ name @ nl @ nl @ ''(Y/N)'') st of
        Inl err \<Rightarrow> Some (Inl err)
      | Inr (user_input, st) \<Rightarrow>
          if user_input = ''N'' \<or> user_input = ''n'' then Some (Inr st)
          else (case map_of (hdf_files e) name of
                  None \<Rightarrow> Some (Inl (HDF4Error name))
                | Some h \<Rightarrow>
                    map_option (\<lambda>r. sbind (lift_cc r) (\<lambda>(lon, lat). pm25_process name h lon lat st))
                      (construct_coords (proj e) (hdf_attrs h) ''GRID_1'')))"

text \<open>Lines 108--219: the loop over the lines, then the closing message.\<close>

fun pm25_loop :: "env \<Rightarrow> string list \<Rightarrow> io \<Rightarrow> (run_error + io) option" where
  "pm25_loop e [] st = Some (Inr (emit (Print (nl @ ''All valid files have been processed.'')) st))"
| "pm25_loop e (l # ls) st =
     Option.bind (pm25_file e l st) (\<lambda>r. case r of Inl err \<Rightarrow> Some (Inl err) | Inr st \<Rightarrow> pm25_loop e ls st)"

text \<open>The whole script, from the opening of \<open>fileList.txt\<close> (lines 41--45).\<close>

definition pm25_script :: "env \<Rightarrow> io \<Rightarrow> (run_error + io) option" where
  "pm25_script e st =
     (case list_file e of
        None \<Rightarrow> Some (Inr (emit (Print
                 ''Did not find a text file containing file names (perhaps name does not match)'') st))
      | Some txt \<Rightarrow> pm25_loop e (py_readlines txt) st)"

section \<open>The AOD script, \<open>src/read_and_map_mcd_aerosol.py\<close>\<close>

text \<open>Lines 115--150 for the file \<open>name\<close>: the masked mean AOD and its figure.\<close>

definition aod_process :: "string \<Rightarrow> hdf \<Rightarrow> field \<Rightarrow> field \<Rightarrow> io \<Rightarrow> run_error + io" where
  "aod_process name h longitude latitude st =
     sbind (np_min latitude) (\<lambda>min_lat. sbind (np_max latitude) (\<lambda>max_lat.
     sbind (np_min longitude) (\<lambda>min_lon. sbind (np_max longitude) (\<lambda>max_lon.
     sbind (hdf_select h ''Optical_Depth_055'') (\<lambda>sds.
     sbind (sds_attr sds ''long_name'') (\<lambda>SDS_NAME.
     sbind (sbind (sds_attr sds ''scale_factor'') scale_of) (\<lambda>scale_factor.
     Inr (emit (ShowAod (drop_last4 name @ nl @ '' '' @ py_str SDS_NAME)
                        (aod_field scale_factor (sds_data sds))) st))))))))"

text \<open>Lines 103--150: one iteration; the line is used with its newline.\<close>

definition aod_file :: "env \<Rightarrow> string \<Rightarrow> io \<Rightarrow> (run_error + io) option" where
  "aod_file e name st =
     (case py_input (''Would you like to process'' @ nl @ name @ nl @ nl @ ''(Y/N)'') st of
        Inl err \<Rightarrow> Some (Inl err)
      | Inr (user_input, st) \<Rightarrow>
          if user_input = ''N'' \<or> user_input = ''n'' then Some (Inr st)
          else (case map_of (hdf_files e) name of
                  None \<Rightarrow> Some (Inl (HDF4Error name))
                | Some h \<Rightarrow>
                    map_option (\<lambda>r. sbind (lift_cc r) (\<lambda>(lon, lat). aod_process name h lon lat st))
                      (construct_coords (proj e) (hdf_attrs h) ''GRID_1'')))"

fun aod_loop :: "env \<Rightarrow> string list \<Rightarrow> io \<Rightarrow> (run_error + io) option" where
  "aod_loop e [] st = Some (Inr (emit (Print (nl @ ''All valid files have been processed.'')) st))"
| "aod_loop e (l # ls) st =
     Option.bind (aod_file e l st) (\<lambda>r. case r of Inl err \<Rightarrow> Some (Inl err) | Inr st \<Rightarrow> aod_loop e ls st)"

definition aod_script :: "env \<Rightarrow> io \<Rightarrow> (run_error + io) option" where
  "aod_script e st =
     (case list_file e of
        None \<Rightarrow> Some (Inr (emit (Print
                 ''Did not find a text file containing file names (perhaps name does not match)'') st))
      | Some txt \<Rightarrow> aod_loop e (py_readlines txt) st)"

section \<open>Lemmas on the builtins\<close>

declare dec_nat.simps [simp del]

lemma py_readlines_Cons:
  "CHR 0x0A \<notin> set name \<Longrightarrow> py_readlines (name @ nl @ rest) = (name @ nl) # py_readlines rest"
  by (simp add: py_readlines_def nl_def py_split_append_sep Let_def)

section \<open>Lemmas on the scripts\<close>

lemma np_min_Cons: "concat a \<noteq> [] \<Longrightarrow> \<exists>m. np_min a = Inr m"
  by (cases "concat a") (simp_all add: np_min_def)

lemma np_max_Cons: "concat a \<noteq> [] \<Longrightarrow> \<exists>m. np_max a = Inr m"
  by (cases "concat a") (simp_all add: np_max_def)

text \<open>
  C19: the AOD script uses each line of \<open>fileList.txt\<close> with its newline
  as the file name: when the first line ends in a newline, no file name contains
  one, and the user does not decline, \<open>SD.SD\<close> raises on that name.
\<close>

theorem aod_script_newline_name:
  assumes "list_file e = Some (name @ nl @ rest)" "CHR 0x0A \<notin> set name"
    and "\<forall>n \<in> set (map fst (hdf_files e)). CHR 0x0A \<notin> set n"
    and "ans \<noteq> ''N''" "ans \<noteq> ''n''"
  shows "aod_script e \<lparr>io_in = ans # pending, io_out = out\<rparr> = Some (Inl (HDF4Error (name @ nl)))"
proof -
  have "map_of (hdf_files e) (name @ nl) = None"
  proof (rule ccontr)
    assume "map_of (hdf_files e) (name @ nl) \<noteq> None"
    then obtain h where "map_of (hdf_files e) (name @ nl) = Some h" by auto
    then have "(name @ nl, h) \<in> set (hdf_files e)" by (rule map_of_SomeD)
    then have "name @ nl \<in> set (map fst (hdf_files e))" by force
    with assms(3) have "CHR 0x0A \<notin> set (name @ nl)" by (rule bspec)
    then show False by (simp add: nl_def)
  qed
  with assms(1,2,4,5) show ?thesis
    by (simp add: aod_script_def py_readlines_Cons aod_file_def py_input_def)
qed

theorem aod_script_newline_name_witness:
  "aod_script \<lparr>list_file = Some (''a.hdf'' @ nl @ ''b.hdf''),
      hdf_files = [(''a.hdf'', \<lparr>hdf_attrs = [], hdf_sds = []\<rparr>), (''b.hdf'', \<lparr>hdf_attrs = [], hdf_sds = []\<rparr>)],
      proj = \<lambda>_. None\<rparr> \<lparr>io_in = [''y''], io_out = []\<rparr> = Some (Inl (HDF4Error (''a.hdf'' @ nl)))"
  by (rule aod_script_newline_name [where rest = "''b.hdf''"]) (simp_all add: nl_def)

text \<open>
  C20: when the user declines every file, the PM2.5 script reads one answer per
  line, shows one prompt per line with the stripped name, prints the closing
  message, and opens no file.
\<close>

theorem pm25_loop_declined:
  "pm25_loop e ls \<lparr>io_in = replicate (length ls) ''n'' @ rest, io_out = out\<rparr> =
     Some (Inr \<lparr>io_in = rest,
       io_out = out @ map (\<lambda>l. Prompt (nl @ ''Would you like to process'' @ nl @ py_strip l @ nl @ nl @ ''(Y/N)'')) ls
                    @ [Print (nl @ ''All valid files have been processed.'')]\<rparr>)"
  by (induction ls arbitrary: out) (simp_all add: pm25_file_def py_input_def emit_def)

text \<open>
  C22: the PM2.5 map with the default parameters.  When the file has the
  data set with a numeric scale factor, its statistics are defined, the
  coordinate fields are not empty, the user declines to type a slope and
  intercept and asks for the map, the script prints the statistics and the
  coordinate ranges, asks its two questions, and shows the mean AQI category
  of \<open>29.4 \<cdot> AOD + 8.8\<close> on the whole data.
\<close>

theorem pm25_process_default_map:
  assumes sel: "hdf_select h ''Optical_Depth_055'' = Inr d"
    and sf: "sds_attr d ''scale_factor'' = Inr v" "py_num v = Some s"
    and stats: "file_stats s (sds_range d) (sds_data d) = Inr r"
    and coords: "concat lon \<noteq> []" "concat lat \<noteq> []"
    and ans: "a \<noteq> ''Y''" "a \<noteq> ''y''" "b = ''Y'' \<or> b = ''y''"
  shows "\<exists>m1 m2 m3 m4. pm25_process name h lon lat \<lparr>io_in = a # b # rest, io_out = out\<rparr> =
     Inr \<lparr>io_in = rest, io_out = out @
       [PrintStats r, PrintLatLon m1 m2 m3 m4,
        Prompt (nl @ ''Would you like to enter a slope and intercept for PM 2.5 calculation?''),
        Prompt (nl @ ''Would you like to create a map of this data? Please enter Y or N '' @ nl),
        ShowAqi (drop_last4 name @ nl @ '' PM 2.5'') (aqi_field (pm25_field (294 / 10) (88 / 10) s (sds_data d)))]\<rparr>"
proof -
  obtain m1 where m1: "np_min lat = Inr m1" using np_min_Cons [OF coords(2)] by blast
  obtain m2 where m2: "np_max lat = Inr m2" using np_max_Cons [OF coords(2)] by blast
  obtain m3 where m3: "np_min lon = Inr m3" using np_min_Cons [OF coords(1)] by blast
  obtain m4 where m4: "np_max lon = Inr m4" using np_max_Cons [OF coords(1)] by blast
  have params: "pm25_params \<lparr>io_in = a # b # rest, io_out = out'\<rparr> =
      Inr ((PFloat 294 (-1), PFloat 88 (-1)),
           \<lparr>io_in = b # rest, io_out = out' @ [Prompt (nl @ ''Would you like to enter a slope and intercept for PM 2.5 calculation?'')]\<rparr>)"
    for out' using ans(1,2) by (simp add: pm25_params_def py_input_def)
  have "pm25_process name h lon lat \<lparr>io_in = a # b # rest, io_out = out\<rparr> =
     Inr \<lparr>io_in = rest, io_out = out @
       [PrintStats r, PrintLatLon m1 m2 m3 m4,
        Prompt (nl @ ''Would you like to enter a slope and intercept for PM 2.5 calculation?''),
        Prompt (nl @ ''Would you like to create a map of this data? Please enter Y or N '' @ nl),
        ShowAqi (drop_last4 name @ nl @ '' PM 2.5'') (aqi_field (pm25_field (294 / 10) (88 / 10) s (sds_data d)))]\<rparr>"
    using m1 m2 m3 m4 sel sf stats ans(3)
    by (auto simp: pm25_process_def scale_of_def lift_cc_def emit_def params py_input_def)
  then show ?thesis by blast
qed

theorem pm25_process_default_map_witness:
  "hdf_select \<lparr>hdf_attrs = [], hdf_sds = [(''Optical_Depth_055'',
       \<lparr>sds_attrs = [(''scale_factor'', PFloat 1 (-3))], sds_range = (0, 5000), sds_data = [[[100]]]\<rparr>)]\<rparr>
     ''Optical_Depth_055'' = Inr \<lparr>sds_attrs = [(''scale_factor'', PFloat 1 (-3))], sds_range = (0, 5000), sds_data = [[[100]]]\<rparr> \<and>
   file_stats (1 / 1000) (0, 5000) [[[100]]] = Inr \<lparr>st_min = 0, st_max = 5, st_avg = 1 / 10, st_std = 0\<rparr> \<and>
   (\<exists>m1 m2 m3 m4. pm25_process ''f.hdf''
       \<lparr>hdf_attrs = [], hdf_sds = [(''Optical_Depth_055'',
          \<lparr>sds_attrs = [(''scale_factor'', PFloat 1 (-3))], sds_range = (0, 5000), sds_data = [[[100]]]\<rparr>)]\<rparr>
       [[1]] [[2]] \<lparr>io_in = [''n'', ''y''], io_out = []\<rparr> =
     Inr \<lparr>io_in = [], io_out =
       [PrintStats \<lparr>st_min = 0, st_max = 5, st_avg = 1 / 10, st_std = 0\<rparr>, PrintLatLon m1 m2 m3 m4,
        Prompt (nl @ ''Would you like to enter a slope and intercept for PM 2.5 calculation?''),
        Prompt (nl @ ''Would you like to create a map of this data? Please enter Y or N '' @ nl),
        ShowAqi (drop_last4 ''f.hdf'' @ nl @ '' PM 2.5'') (aqi_field (pm25_field (294 / 10) (88 / 10) (1 / 1000) [[[100]]]))]\<rparr>)"
proof -
  let ?d = "\<lparr>sds_attrs = [(''scale_factor'', PFloat 1 (-3))], sds_range = (0, 5000), sds_data = [[[100 :: int]]]\<rparr>"
  have sel: "hdf_select \<lparr>hdf_attrs = [], hdf_sds = [(''Optical_Depth_055'', ?d)]\<rparr> ''Optical_Depth_055'' = Inr ?d"
    by (simp add: hdf_select_def)
  have sf: "sds_attr ?d ''scale_factor'' = Inr (PFloat 1 (-3))" by (simp add: sds_attr_def)
  have num: "py_num (PFloat 1 (-3)) = Some (1 / 1000)" by simp
  have st: "file_stats (1 / 1000) (0, 5000) [[[100]]] = Inr \<lparr>st_min = 0, st_max = 5, st_avg = 1 / 10, st_std = 0\<rparr>"
    by (simp add: file_stats_def valid_values_def py_mean_def np_std_def)
  have st': "file_stats (1 / 1000) (sds_range ?d) (sds_data ?d) = Inr \<lparr>st_min = 0, st_max = 5, st_avg = 1 / 10, st_std = 0\<rparr>"
    using st by simp
  show ?thesis
    using pm25_process_default_map [OF sel sf num st', of "[[1]]" "[[2]]" "''n''" "''y''" "''f.hdf''" "[]" "[]"]
      sel st by simp
qed

text \<open>
  C23: a slope typed by the user that \<open>float()\<close> rejects with \<open>ValueError\<close>
  (text that is not a decimal number, and not \<open>inf\<close> or \<open>nan\<close>) ends the PM2.5
  script with that exception at line 162: the default parameters are not used
  in its place and no map is shown.
\<close>

theorem pm25_process_bad_slope:
  assumes sel: "hdf_select h ''Optical_Depth_055'' = Inr d"
    and sf: "sds_attr d ''scale_factor'' = Inr v" "py_num v = Some s"
    and stats: "file_stats s (sds_range d) (sds_data d) = Inr r"
    and coords: "concat lon \<noteq> []" "concat lat \<noteq> []"
    and ans: "a = ''Y'' \<or> a = ''y''" and bad: "float_of_str sl = Inl (Raised (ValueError sl))"
  shows "pm25_process name h lon lat \<lparr>io_in = a # sl # ic # rest, io_out = out\<rparr> = Inl (Raised (ValueError sl))"
proof -
  obtain m1 where m1: "np_min lat = Inr m1" using np_min_Cons [OF coords(2)] by blast
  obtain m2 where m2: "np_max lat = Inr m2" using np_max_Cons [OF coords(2)] by blast
  obtain m3 where m3: "np_min lon = Inr m3" using np_min_Cons [OF coords(1)] by blast
  obtain m4 where m4: "np_max lon = Inr m4" using np_max_Cons [OF coords(1)] by blast
  have params: "pm25_params \<lparr>io_in = a # sl # ic # rest, io_out = out'\<rparr> =
      Inr ((PStr sl, PStr ic),
           \<lparr>io_in = rest, io_out = out' @ [Prompt (nl @ ''Would you like to enter a slope and intercept for PM 2.5 calculation?''),
              Prompt ''Please enter a slope: '', Prompt ''Please enter an intercept: '']\<rparr>)"
    for out' using ans by (auto simp: pm25_params_def py_input_def)
  show ?thesis
    using m1 m2 m3 m4 sel sf stats bad
    by (simp add: pm25_process_def scale_of_def lift_cc_def emit_def params)
qed

theorem pm25_process_bad_slope_witness:
  "float_of_str ''abc'' = Inl (Raised (ValueError ''abc'')) \<and>
   pm25_process ''f.hdf''
       \<lparr>hdf_attrs = [], hdf_sds = [(''Optical_Depth_055'',
          \<lparr>sds_attrs = [(''scale_factor'', PInt 1)], sds_range = (0, 5000), sds_data = [[[100]]]\<rparr>)]\<rparr>
       [[1]] [[2]] \<lparr>io_in = [''Y'', ''abc'', ''1''], io_out = []\<rparr> = Inl (Raised (ValueError ''abc''))"
proof -
  let ?d = "\<lparr>sds_attrs = [(''scale_factor'', PInt 1)], sds_range = (0, 5000), sds_data = [[[100 :: int]]]\<rparr>"
  have sel: "hdf_select \<lparr>hdf_attrs = [], hdf_sds = [(''Optical_Depth_055'', ?d)]\<rparr> ''Optical_Depth_055'' = Inr ?d"
    by (simp add: hdf_select_def)
  have sf: "sds_attr ?d ''scale_factor'' = Inr (PInt 1)" by (simp add: sds_attr_def)
  have num: "py_num (PInt 1) = Some 1" by simp
  have st: "file_stats 1 (sds_range ?d) (sds_data ?d) = Inr \<lparr>st_min = 0, st_max = 5000, st_avg = 100, st_std = 0\<rparr>"
    by (simp add: file_stats_def valid_values_def py_mean_def np_std_def)
  have bad: "float_of_str ''abc'' = Inl (Raised (ValueError ''abc''))"
    by (simp add: float_of_str_def py_strip_def py_isspace_def py_lower_def py_lower_char_def
        float_decimal_def is_digit_def)
  show ?thesis
    using pm25_process_bad_slope [OF sel sf num st, of "[[1]]" "[[2]]" "''Y''" "''abc''" "''f.hdf''" "''1''" "[]" "[]"] bad
    by simp
qed

end
