(* ===== verification/MetadataText.thy ===== *)
theory MetadataText
  imports Metadata
begin

text \<open>
  The metadata grammar of the specification (section 4.1 and the round-trip
  property of section 8): a text is a sequence of assignments \<open>key=value\<close> and
  blocks \<open>GROUP=name\<close> \<dots> \<open>END_GROUP=name\<close> (or \<open>OBJECT\<close>), rendered one item
  per line.  \<open>spec_list\<close> is what parsing such a text should give: the
  \<open>OrderedDict\<close> of the items in order, each value evaluated by \<open>eval_value\<close> and
  each block a nested dictionary.  The theorem of this theory shows that
  \<open>parse_hdfeos_metadata\<close> computes it on every well-formed text whose block
  closers are pairwise distinct.
\<close>

section \<open>Structured metadata text\<close>

datatype mdtext =
    Assign string string            \<comment> \<open>\<open>key=value\<close>\<close>
  | Block string string "mdtext list"  \<comment> \<open>\<open>kind=name\<close>, the items, \<open>END_kind=name\<close>\<close>

fun render :: "mdtext \<Rightarrow> string list" where
  "render (Assign k v) = [k @ ''='' @ v]"
| "render (Block kd n ts) = (kd @ ''='' @ n) # concat (map render ts) @ [closer kd n]"

definition render_text :: "mdtext list \<Rightarrow> string" where
  "render_text ts = py_join CHR 0x0A (concat (map render ts))"

fun closers_of :: "mdtext \<Rightarrow> string list" where
  "closers_of (Assign k v) = []"
| "closers_of (Block kd n ts) = closer kd n # concat (map closers_of ts)"

text \<open>A name or value on one line, without \<open>=\<close>.\<close>

definition plain :: "string \<Rightarrow> bool" where
  "plain s \<longleftrightarrow> CHR ''='' \<notin> set s \<and> CHR 0x0A \<notin> set s \<and> CHR 0x09 \<notin> set s"

fun text_wf :: "mdtext \<Rightarrow> bool" where
  "text_wf (Assign k v) \<longleftrightarrow>
     plain k \<and> plain v \<and> k \<notin> set [''GROUP'', ''OBJECT''] \<and>
     \<not> py_in ''END_GROUP'' k \<and> \<not> py_in ''END_OBJECT'' k"
| "text_wf (Block kd n ts) \<longleftrightarrow> kd \<in> set [''GROUP'', ''OBJECT''] \<and> plain n \<and> list_all text_wf ts"

text \<open>The dictionary the text stands for; the first value \<open>eval\<close> rejects is the error.\<close>

fun spec_item :: "mdict \<Rightarrow> mdtext \<Rightarrow> md_error + mdict"
and spec_list :: "mdict \<Rightarrow> mdtext list \<Rightarrow> md_error + mdict" where
  "spec_item out (Assign k v) = sbind (eval_value v) (\<lambda>x. Inr (od_set out k x))"
| "spec_item out (Block kd n ts) = sbind (spec_list [] ts) (\<lambda>sub. Inr (od_set out n (MGroup sub)))"
| "spec_list out [] = Inr out"
| "spec_list out (t # ts) = sbind (spec_item out t) (\<lambda>out'. spec_list out' ts)"

section \<open>The parser on rendered text\<close>

lemma render_nonempty: "render t \<noteq> []"
  by (cases t) simp_all

lemma render_clean: "text_wf t \<Longrightarrow> md_clean (render t)"
  by (induction t) (auto simp: md_clean_def plain_def closer_def list_all_iff)

lemma eq_at_sep:
  assumes "CHR ''='' \<notin> set k" "CHR ''='' \<notin> set v" "CHR ''='' \<notin> set k'" "CHR ''='' \<notin> set v'"
    and "k @ CHR ''='' # v = k' @ CHR ''='' # v'"
  shows "k = k' \<and> v = v'"
proof -
  have "py_split CHR ''='' (k @ CHR ''='' # v) = [k, v]" using assms(1,2) by (rule py_split_pair)
  then have "py_split CHR ''='' (k' @ CHR ''='' # v') = [k, v]" unfolding assms(5) .
  moreover have "py_split CHR ''='' (k' @ CHR ''='' # v') = [k', v']" using assms(3,4) by (rule py_split_pair)
  ultimately show ?thesis by simp
qed

lemma render_closer_line:
  assumes "text_wf t" "x \<in> set (render t)" "x = closer kd n" "kd \<in> set [''GROUP'', ''OBJECT'']" "plain n"
  shows "x \<in> set (closers_of t)"
  using assms
proof (induction t arbitrary: x)
  case (Assign k v)
  then have "k @ CHR ''='' # v = (''END_'' @ kd) @ CHR ''='' # n"
    by (simp add: closer_def)
  moreover have "CHR ''='' \<notin> set (''END_'' @ kd)" using Assign.prems(4) by auto
  ultimately have "k = ''END_'' @ kd"
    using eq_at_sep [of k v "''END_'' @ kd" n] Assign.prems(1,5) by (simp add: plain_def)
  with Assign.prems(1,4) show ?case by (auto simp: py_in_iff_sublist)
next
  case (Block kd' n' ts)
  show ?case
  proof (cases "x = kd' @ ''='' @ n'")
    case True
    then have "kd' @ CHR ''='' # n' = (''END_'' @ kd) @ CHR ''='' # n"
      using Block.prems(3) by (simp add: closer_def)
    moreover have "CHR ''='' \<notin> set (''END_'' @ kd)" "CHR ''='' \<notin> set kd'"
      using Block.prems(1,4) by auto
    ultimately have "kd' = ''END_'' @ kd"
      using eq_at_sep [of kd' n' "''END_'' @ kd" n] Block.prems(1,5) by (simp add: plain_def)
    with Block.prems(1) show ?thesis by auto
  next
    case False
    with Block.prems(2) consider "x = closer kd' n'" | t where "t \<in> set ts" "x \<in> set (render t)"
      by auto
    then show ?thesis
    proof cases
      case (2 t)
      with Block.IH [of t x] Block.prems(1,3-5) show ?thesis by (auto simp: list_all_iff)
    qed simp
  qed
qed

lemma closers_of_shape:
  "text_wf u \<Longrightarrow> c \<in> set (closers_of u) \<Longrightarrow>
   \<exists>kd n. c = closer kd n \<and> kd \<in> set [''GROUP'', ''OBJECT''] \<and> plain n"
proof (induction u)
  case (Block kd n ts)
  show ?case
  proof (cases "c = closer kd n")
    case False
    with Block.prems obtain t where "t \<in> set ts" "c \<in> set (closers_of t)" "text_wf t"
      by (auto simp: list_all_iff)
    then show ?thesis using Block.IH by blast
  qed (use Block.prems in auto)
qed simp

lemma render_closers_disjoint:
  assumes "text_wf t" "list_all text_wf ts" "set (closers_of t) \<inter> set (concat (map closers_of ts)) = {}"
  shows "set (concat (map closers_of ts)) \<inter> set (render t) = {}"
proof -
  have "c \<in> set (closers_of t)" if "c \<in> set (concat (map closers_of ts))" "c \<in> set (render t)" for c
  proof -
    from that(1) obtain u where u: "u \<in> set ts" "c \<in> set (closers_of u)" by auto
    with assms(2) have "text_wf u" by (simp add: list_all_iff)
    with u(2) obtain kd n where "c = closer kd n" "kd \<in> set [''GROUP'', ''OBJECT'']" "plain n"
      using closers_of_shape by blast
    with assms(1) that(2) show ?thesis by (intro render_closer_line) auto
  qed
  with assms(3) show ?thesis by blast
qed

lemma md_loop_list:
  assumes items: "\<And>t pre rest out. t \<in> set ts \<Longrightarrow> text_wf t \<Longrightarrow> distinct (closers_of t) \<Longrightarrow> set (closers_of t) \<inter> set pre = {} \<Longrightarrow>
      md_loop (pre @ render t @ rest) (int (length pre) - 1) out =
        (case spec_item out t of Inl e \<Rightarrow> Some (Inl e)
         | Inr out' \<Rightarrow> md_loop (pre @ render t @ rest) (int (length pre + length (render t)) - 1) out')"
    and wf: "list_all text_wf ts" and d: "distinct (concat (map closers_of ts))"
    and pre: "set (concat (map closers_of ts)) \<inter> set pre = {}"
  shows "md_loop (pre @ concat (map render ts) @ rest) (int (length pre) - 1) out =
    (case spec_list out ts of Inl e \<Rightarrow> Some (Inl e)
     | Inr out' \<Rightarrow> md_loop (pre @ concat (map render ts) @ rest)
                     (int (length pre + length (concat (map render ts))) - 1) out')"
  using items wf d pre
proof (induction ts arbitrary: pre out)
  case (Cons t ts)
  let ?R = "concat (map render ts) @ rest"
  have t: "md_loop (pre @ render t @ ?R) (int (length pre) - 1) out =
        (case spec_item out t of Inl e \<Rightarrow> Some (Inl e)
         | Inr out' \<Rightarrow> md_loop (pre @ render t @ ?R) (int (length pre + length (render t)) - 1) out')"
    by (rule Cons.prems(1)) (use Cons.prems(2-4) in auto)
  have disj: "set (concat (map closers_of ts)) \<inter> set (render t) = {}"
    using Cons.prems(2,3) by (intro render_closers_disjoint) auto
  have ih: "md_loop ((pre @ render t) @ concat (map render ts) @ rest) (int (length (pre @ render t)) - 1) out' =
    (case spec_list out' ts of Inl e \<Rightarrow> Some (Inl e)
     | Inr out'' \<Rightarrow> md_loop ((pre @ render t) @ concat (map render ts) @ rest)
                     (int (length (pre @ render t) + length (concat (map render ts))) - 1) out'')" for out'
    by (rule Cons.IH, rule Cons.prems(1)) (use Cons.prems(2-4) disj in auto)
  show ?case
  proof (cases "spec_item out t")
    case (Inl e)
    with t show ?thesis by simp
  next
    case (Inr out')
    with t ih [of out'] show ?thesis
      by (cases "spec_list out' ts") (simp_all add: add.assoc)
  qed
qed simp

lemma md_loop_end: "md_loop lines (int (length lines) - 1) out = Some (Inr out)"
  by (subst md_loop_unfold) (simp add: md_body_stop)

lemma md_loop_whole:
  assumes items: "\<And>t pre rest out. t \<in> set ts \<Longrightarrow> text_wf t \<Longrightarrow> distinct (closers_of t) \<Longrightarrow>
      set (closers_of t) \<inter> set pre = {} \<Longrightarrow>
      md_loop (pre @ render t @ rest) (int (length pre) - 1) out =
        (case spec_item out t of Inl e \<Rightarrow> Some (Inl e)
         | Inr out' \<Rightarrow> md_loop (pre @ render t @ rest) (int (length pre + length (render t)) - 1) out')"
    and wf: "list_all text_wf ts" and d: "distinct (concat (map closers_of ts))"
  shows "md_loop (md_lines (py_join CHR 0x0A (concat (map render ts)))) (-1) [] = Some (spec_list [] ts)"
proof (cases "ts = []")
  case True
  then show ?thesis by (simp add: md_lines_def md_loop_blank)
next
  case False
  let ?L = "concat (map render ts)"
  have ne: "?L \<noteq> []" using False render_nonempty by (cases ts) auto
  have clean: "md_clean ?L" using wf render_clean by (auto simp: md_clean_def list_all_iff)
  have lines: "md_lines (py_join CHR 0x0A ?L) = ?L"
    by (simp only: md_lines_join [OF clean] if_not_P [OF ne])
  have "md_loop ([] @ ?L @ []) (int (length ([] :: string list)) - 1) [] =
    (case spec_list [] ts of Inl e \<Rightarrow> Some (Inl e)
     | Inr out' \<Rightarrow> md_loop ([] @ ?L @ []) (int (length ([] :: string list) + length ?L) - 1) out')"
    by (rule md_loop_list [OF items wf d]) simp_all
  then show ?thesis
    by (cases "spec_list [] ts") (simp_all add: lines md_loop_end)
qed

lemma md_loop_item:
  "text_wf t \<Longrightarrow> distinct (closers_of t) \<Longrightarrow> set (closers_of t) \<inter> set pre = {} \<Longrightarrow>
   md_loop (pre @ render t @ rest) (int (length pre) - 1) out =
     (case spec_item out t of Inl e \<Rightarrow> Some (Inl e)
      | Inr out' \<Rightarrow> md_loop (pre @ render t @ rest) (int (length pre + length (render t)) - 1) out')"
proof (induction t arbitrary: pre rest out)
  case (Assign k v)
  let ?lines = "pre @ render (Assign k v) @ rest"
  have line: "md_line ?lines (int (length pre) - 1) = k @ CHR ''='' # v" by simp
  have split: "py_split CHR ''='' (k @ CHR ''='' # v) = [k, v]"
    using Assign.prems(1) by (intro py_split_pair) (auto simp: plain_def)
  have body: "md_loop ?lines (int (length pre) - 1) out =
      (case eval_value v of Inl e \<Rightarrow> Some (Inl e)
       | Inr x \<Rightarrow> md_loop ?lines (int (length pre) - 1 + 1) (od_set out k x))"
    by (subst md_loop_unfold, rule md_body_leaf) (use Assign.prems(1) line split in simp_all)
  show ?case
    using body by (cases "eval_value v") simp_all
next
  case (Block kd n ts)
  let ?inner = "concat (map render ts)" and ?cl = "closer kd n"
  let ?lines = "pre @ render (Block kd n ts) @ rest"
  have wf: "kd \<in> set [''GROUP'', ''OBJECT'']" "plain n" "list_all text_wf ts"
    using Block.prems(1) by auto
  have d: "distinct (concat (map closers_of ts))" "?cl \<notin> set (concat (map closers_of ts))"
    using Block.prems(2) by auto
  have split: "py_split CHR ''='' (kd @ CHR ''='' # n) = [kd, n]"
    using wf(1,2) by (intro py_split_pair) (auto simp: plain_def)
  have "?cl \<notin> set ?inner"
  proof
    assume "?cl \<in> set ?inner"
    then obtain u where "u \<in> set ts" "?cl \<in> set (render u)" by auto
    moreover have "text_wf u" using \<open>u \<in> set ts\<close> wf(3) by (simp add: list_all_iff)
    ultimately have "?cl \<in> set (closers_of u)" using wf(1,2) by (intro render_closer_line) auto
    with \<open>u \<in> set ts\<close> d(2) show False by auto
  qed
  then have "py_index (?inner @ ?cl # rest) ?cl = Some (length ?inner)"
    by (simp add: py_index_append_notin)
  moreover have "?cl \<notin> set pre" using Block.prems(3) by auto
  ultimately have idx: "py_index ?lines ?cl = Some (length pre + Suc (length ?inner))"
    using opener_not_closer [of kd n] by (simp add: py_index_append_notin)
  have slice: "py_slice ?lines (length pre + 1) (length pre + Suc (length ?inner)) = ?inner"
    by (simp add: py_slice_def)
  have sub: "md_loop (md_lines (py_join CHR 0x0A ?inner)) (-1) [] = Some (spec_list [] ts)"
  proof (rule md_loop_whole [OF _ wf(3) d(1)])
    fix t pre' rest' out'
    assume "t \<in> set ts" "text_wf t" "distinct (closers_of t)" "set (closers_of t) \<inter> set pre' = {}"
    then show "md_loop (pre' @ render t @ rest') (int (length pre') - 1) out' =
        (case spec_item out' t of Inl e \<Rightarrow> Some (Inl e)
         | Inr out'' \<Rightarrow> md_loop (pre' @ render t @ rest') (int (length pre' + length (render t)) - 1) out'')"
      by (rule Block.IH)
  qed
  have body: "md_loop ?lines (int (length pre) - 1) out =
      (case spec_list [] ts of Inl err \<Rightarrow> Some (Inl err)
       | Inr s \<Rightarrow> md_loop ?lines (int (length pre + length (render (Block kd n ts))) - 1)
                    (od_set out n (MGroup s)))"
    apply (subst md_loop_unfold)
    apply (rule md_body_block [where k=kd and v=n, OF _ _ wf(1) idx, THEN trans])
      apply (simp_all add: split)
    by (cases "spec_list [] ts") (simp_all add: slice [simplified] sub)
  show ?case
    by (cases "spec_list [] ts") (simp_all add: body [simplified])
qed

text \<open>
  C21: refinement of the grammar by the parser.  On every well-formed
  structured text whose block closers are pairwise distinct,
  \<open>parse_hdfeos_metadata\<close> of the rendered text terminates and returns exactly
  the dictionary (or the first \<open>eval\<close> error) that the grammar assigns to it.
\<close>

theorem parse_md_refines_spec:
  assumes "list_all text_wf ts" and "distinct (concat (map closers_of ts))"
  shows "parse_md (render_text ts) = Some (spec_list [] ts)"
  unfolding parse_md_def render_text_def
  by (rule md_loop_whole [OF md_loop_item assms])

theorem parse_md_refines_spec_witness:
  "list_all text_wf [Block ''GROUP'' ''GridStructure'' [Assign ''XDim'' ''1200''], Assign ''Version'' ''1''] \<and>
   distinct (concat (map closers_of [Block ''GROUP'' ''GridStructure'' [Assign ''XDim'' ''1200''], Assign ''Version'' ''1''])) \<and>
   parse_md (render_text [Block ''GROUP'' ''GridStructure'' [Assign ''XDim'' ''1200''], Assign ''Version'' ''1'']) =
     Some (spec_list [] [Block ''GROUP'' ''GridStructure'' [Assign ''XDim'' ''1200''], Assign ''Version'' ''1''])"
proof -
  have wf: "list_all text_wf [Block ''GROUP'' ''GridStructure'' [Assign ''XDim'' ''1200''], Assign ''Version'' ''1'']"
    by (auto simp: plain_def py_in_iff_sublist dest: sublist_length_le)
  have d: "distinct (concat (map closers_of [Block ''GROUP'' ''GridStructure'' [Assign ''XDim'' ''1200''], Assign ''Version'' ''1'']))"
    by simp
  from wf d parse_md_refines_spec [OF wf d] show ?thesis by (intro conjI)
qed

end
