(* ===== verification/Spec2Isabelle.thy ===== *)
theory Spec2Isabelle
  imports Driver MetadataText
begin

text \<open>
  A shallow embedding of the two NASA ARSET MODIS MAIAC scripts
  \<open>src/read_and_map_mcd_aerosol.py\<close> (AOD map) and
  \<open>src/read_mcd_aod_and_calculate_pm25.py\<close> (PM2.5 estimate and AQI map).  Both
  read the HDF-EOS structural metadata of an MCD19A2 file, rebuild the grid's
  coordinates, and plot a field; the second also computes statistics and a
  PM2.5 estimate.  Their common core is the metadata parser
  \<open>parse_hdfeos_metadata\<close> and the coordinate builder \<open>construct_coords\<close>,
  identical in both files.

  \<^bold>\<open>Theories.\<close>
  \<^item> \<open>Prelude\<close>: the Python string, list and \<open>OrderedDict\<close> operations the scripts
    call (\<open>str.split\<close>, \<open>str.join\<close>, \<open>in\<close>, \<open>str.lower\<close>, \<open>list.index\<close>, slicing,
    item assignment), exceptions as the \<open>Inl\<close> of a sum with \<open>sbind\<close> to
    sequence statements, and their shared lemmas.
  \<^item> \<open>PyLiteral\<close>: Python's \<open>eval\<close> on the literal fragment that metadata values
    use (integers, decimal floats, strings, names, unary signs, tuples), as a
    lexer, a shift-reduce parser and an evaluator.  A name not bound in the
    scope raises \<open>NameError\<close>; a bound name is an object outside the fragment
    (\<open>EvObj\<close>), after which the items of a tuple are still evaluated left to
    right; a keyword is a \<open>SyntaxError\<close>; anything else outside the fragment is
    the outcome \<open>EvOutside\<close>.  The scope (\<open>parser_scope\<close>, in \<open>MetadataStep\<close>)
    holds the parser's locals, \<open>endIdx\<close> included, and the module names of both
    scripts.  Floats are exact decimals.
  \<^item> \<open>MetadataStep\<close> and \<open>Metadata\<close>: \<open>parse_hdfeos_metadata\<close>.  One iteration of
    its \<open>while\<close> loop is \<open>md_body\<close>; the loop, which does not end on some inputs,
    is the \<open>partial_function (option)\<close> \<open>md_loop\<close>, so that non-termination is
    the value \<open>None\<close>; \<open>parse_md\<close> is the function.  The lemmas show that the
    parser returns on every text in which no closer precedes its opener (by
    induction on the number of lines and the distance to the end), that a text with two
    sibling blocks of the same name makes it loop for ever (C2), and its
    exceptions: an unclosed block, a line with two \<open>=\<close>, and the silent skipping
    of a stray closer, and that an unbound identifier value falls back to its
    string (the \<open>except NameError\<close> branch, C24).
  \<^item> \<open>MetadataText\<close>: the grammar of well-formed metadata text (assignments and
    nested \<open>GROUP\<close>/\<open>OBJECT\<close> blocks, \<open>mdtext\<close>), its rendering to lines
    (\<open>render_text\<close>) and the dictionary it denotes (\<open>spec_list\<close>).  The
    refinement theorem (C21) shows that \<open>parse_hdfeos_metadata\<close> terminates on
    every rendered well-formed text whose closers are distinct and returns
    exactly that dictionary, by induction on the text with the loop index
    kept explicit.  Distinct closers are needed: C2 shows that the parser
    loops for ever on two sibling blocks of the same name.
  \<^item> \<open>Grid\<close>: \<open>construct_coords\<close>: the lookups of the grid's group, the unpacking
    of the corners, the resolutions, \<open>np.arange\<close> (the number of samples is
    \<open>\<lceil>(stop - start) / step\<rceil>\<close>), the reversal of the \<open>y\<close> axis, \<open>np.meshgrid\<close>,
    the projection-name dispatch and the PROJ definition string (with
    CPython's \<open>str\<close> of the radius).  The PROJ library is a parameter
    \<open>plib\<close>; the lemmas hold for every library.  They give the field as the
    transform of the meshgrid of the two \<open>np.arange\<close> axes whatever their
    number of samples (entry \<open>(i, j)\<close> at the cell corner
    \<open>(x2 + j \<cdot> xRes, y2 + (ny - 1 - i) \<cdot> yRes)\<close>, C7), north-up rows, the
    east-to-west order of the columns, and the exceptions of degenerate or
    missing grids.

  \<^item> \<open>Aqi\<close>: the array computations on the \<open>(orbit, row, column)\<close> arrays of
    \<open>Optical_Depth_055\<close>: the valid-range filter, average and standard deviation
    of the PM2.5 script (\<open>file_stats\<close>), the PM2.5 field, the seven in-place
    masked assignments of the AQI classification (\<open>aqi_masks\<close>), the masked
    mean over the orbits (\<open>np_ma_mean0\<close>), and the masked AOD mean of the first
    script (\<open>aod_field\<close>).  The lemmas show that the sequential masks compute
    the pure EPA classification, that mean categories lie in \<open>[0, 5]\<close>, that a
    cell is masked exactly when all its orbits are negative, that the average
    lies in the scaled valid range, that a tile of fill values raises
    \<open>ZeroDivisionError\<close>, and that the AOD mean is never negative.
  \<^item> \<open>Driver\<close>: the module-level code of both scripts: opening
    \<open>fileList.txt\<close>, the loop over its lines, every \<open>input()\<close> prompt, the HDF
    access (\<open>SD.SD\<close>, \<open>select\<close>, the attributes), the statistics, the PM2.5
    parameters typed by the user (\<open>float()\<close> on a string), and each figure.
    The console is explicit state (\<open>io\<close>: unread input lines and the events
    written), files and PROJ form the environment \<open>env\<close>, and one loop
    iteration is a function from state to \<open>(run_error + io) option\<close>.  The
    lemmas show that the AOD script opens every line of the list with its
    newline (so \<open>SD.SD\<close> fails), what a run that declines every file does,
    which events the PM2.5 script produces with the default slope and
    intercept, on the PM2.5 and AQI computation of \<open>Aqi\<close> (C22), and that a
    typed slope \<open>float()\<close> rejects with \<open>ValueError\<close> ends the script (C23).

  \<^bold>\<open>Across components.\<close>  The properties that span components are stated
  where the composed definitions meet: the parser against the grammar in
  \<open>MetadataText\<close> (C21), the statistics, PM2.5 field and AQI map inside one
  iteration of the PM2.5 script in \<open>Driver\<close> (C22).

  \<^bold>\<open>Arithmetic.\<close>  Python floats and NumPy \<open>float64\<close> are modelled as exact
  reals (metadata literals as exact decimals), so binary rounding, infinities
  and NaN arising from arithmetic are not modelled; in particular the float
  \<open>np.arange\<close> of the scripts may produce one sample more than the exact
  \<open>XDim\<close> when the quotient rounds up, so no theorem states the number of
  samples: C7 holds for whatever number the axes have.

  \<^bold>\<open>Not modelled.\<close>  The libraries the scripts only call: pyhdf is an
  environment of files with their attributes and data sets, the PROJ transform
  is a parameter, and plotting with matplotlib and cartopy is recorded as one
  event carrying the figure's title and field (colour maps, gridlines, extent
  and colour bar are not modelled).  \<open>round(x, 3)\<close> in the printed statistics
  is not modelled: the event carries the exact values.  \<open>float()\<close> of
  \<open>inf\<close> and \<open>nan\<close> has no real value and is the outcome \<open>FloatOutside\<close>,
  which ends the model's run where Python goes on.  An exception ends a run
  with its \<open>Inl\<close> alone: the events printed before it are not kept.

  \<^bold>\<open>Errors and non-termination.\<close>  Every exception is an \<open>Inl\<close>: \<open>md_error\<close>
  in the parser, \<open>cc_error\<close> in \<open>construct_coords\<close> and the array code,
  \<open>run_error\<close> in the scripts.  The parser's loop can fail to end; it is a
  \<open>partial_function (option)\<close>, and every function that calls it returns an
  option whose \<open>None\<close> is that non-termination.  No fuel is used.  \<open>eval\<close> of a
  value outside the literal fragment (a call, an operator) may also not end in
  Python; the model does not follow it and gives the error \<open>ValueOutside\<close>.
\<close>

end
